theory Spec2Isabelle
  imports Main
begin

section \<open>The create widget of the Maya library (basecreatewidget.py)\<close>

text \<open>
  \<open>BaseCreateWidget\<close> is a Qt widget whose methods read and write its own fields and
  call into three collaborators: the Qt widgets loaded from the design file, the Maya
  session (selection query, script jobs, thumbnail capture) and the \<open>item\<close> that performs
  the save. The embedding keeps the widget's fields and the part of the collaborators'
  state that the methods read in one record, and records every call that leaves the
  widget as an event, in order, in the field \<open>trace\<close>.

  The widget runs inside a Maya session: the Qt and Maya calls are taken to return, and
  the fallbacks of the file for a Python without Maya (\<open>except ImportError\<close> at import,
  \<open>except NameError\<close> in \<open>__init__\<close> and \<open>objectCount\<close>) are not modelled. The call
  that may raise is \<open>item.save\<close>, whose outcome is an input of the model.

  Left out are the methods that only reach collaborators outside this state: the
  options widget (\<open>setItem\<close>, \<open>selectionChanged\<close>), the label of the object count
  (\<open>updateContains\<close>, \<open>objectCount\<close>), the settings, the capture menu and the menu of
  selection sets. None of them assigns \<open>_iconPath\<close> or \<open>_scriptJob\<close>.
\<close>

subsection \<open>Python values\<close>

text \<open>
  An exception carries the text \<open>str(e)\<close>. The handler of \<open>accept\<close> is
  \<open>except Exception\<close>, so the model keeps apart the instances of \<open>Exception\<close> and the
  exceptions that derive from \<open>BaseException\<close> only (\<open>KeyboardInterrupt\<close>,
  \<open>SystemExit\<close>, \<open>GeneratorExit\<close>).
\<close>

datatype py_exception = PyException string | PyBaseException string

fun isinstance_Exception :: "py_exception \<Rightarrow> bool" where
  "isinstance_Exception (PyException m) = True"
| "isinstance_Exception (PyBaseException m) = False"

fun str_exc :: "py_exception \<Rightarrow> string" where
  "str_exc (PyException m) = m"
| "str_exc (PyBaseException m) = m"

text \<open>
  \<open>str.strip()\<close> removes the white space at both ends. The texts of the fields are
  Python text (\<open>str\<close>, in Python 2 \<open>unicode\<close>, as Qt returns it). A \<open>char\<close> stands for a
  code point below 256, and the code points there that \<open>str.isspace\<close> accepts are
  U+0009 to U+000D, U+001C to U+0020, U+0085 and U+00A0. Texts with code points from
  256 on, where the white space depends on the Unicode data of the Python at hand, are
  not represented.
\<close>

definition isspace :: "char \<Rightarrow> bool" where
  "isspace c = (of_char c \<in> {9, 10, 11, 12, 13, 28, 29, 30, 31, 32, 133, 160 :: nat})"

definition strip :: "string \<Rightarrow> string" where
  "strip s = rev (dropWhile isspace (rev (dropWhile isspace s)))"

subsection \<open>Calls that leave the widget\<close>

type_synonym qsize = "int \<times> int"
type_synonym window = "nat option"
type_synonym metadata = "string \<rightharpoonup> string"

datatype button = Yes | Ignore | Cancel

datatype event =
    MessageBox_question window string string
  | MessageBox_critical window string string
  | Gui_thumbnailCapture
  | Item_save "string list" string string metadata
  | ScriptJob_new nat
  | ScriptJob_kill nat
  | QWidget_close
  | Button_setIcon string

subsection \<open>The state\<close>

text \<open>
  The state holds the widget's fields, the item's library window, what the methods read
  of the Qt widgets, and the host: the Maya selection, the files on disc, and in
  \<open>live_jobs\<close> the subscriptions of this widget's \<open>selectionChanged\<close> that are registered
  in Maya (\<open>next_job\<close> is the number Maya gives the next one).
\<close>

record st =
  \<comment> \<open>fields of the widget\<close>
  f_iconPath :: string
  f_scriptJob :: "nat option"
  \<comment> \<open>the item collaborator\<close>
  item_libraryWindow :: window
  \<comment> \<open>the Qt widgets of \<open>self.ui\<close> and the widget's geometry\<close>
  ui_name_text :: string
  ui_comment_text :: string
  ui_folderEdit_text :: string
  ui_thumbnailButton_icon :: string
  ui_thumbnailButton_text :: string
  ui_thumbnailButton_iconSize :: qsize
  ui_thumbnailButton_maximumSize :: qsize
  ui_thumbnailFrame_maximumSize :: qsize
  widget_width :: int
  \<comment> \<open>the host: Maya selection, files on disc, registered script jobs\<close>
  maya_selection :: "string list option"
  existing_files :: "string list"
  live_jobs :: "nat list"
  next_job :: nat
  \<comment> \<open>calls made so far\<close>
  trace :: "event list"

text \<open>
  What the user and the item do during one call: the button clicked in the question
  dialog, the path handed to the \<open>captured\<close> callback while \<open>thumbnailCapture\<close> runs
  (\<open>None\<close> when the callback is not invoked) and the outcome of \<open>item.save\<close> on given
  arguments (\<open>None\<close> when it returns, \<open>Some e\<close> when it raises \<open>e\<close>).
\<close>

record env =
  answer :: button
  captured :: "string option"
  item_save :: "string list \<Rightarrow> string \<Rightarrow> string \<Rightarrow> metadata \<Rightarrow> py_exception option"

definition emit :: "event \<Rightarrow> st \<Rightarrow> st" where
  "emit e s = s\<lparr>trace := trace s @ [e]\<rparr>"

subsection \<open>Methods of the widget\<close>

definition libraryWindow :: "st \<Rightarrow> window" where
  "libraryWindow s = item_libraryWindow s"

definition setLibraryWindow :: "window \<Rightarrow> st \<Rightarrow> st" where
  "setLibraryWindow w s = s\<lparr>item_libraryWindow := w\<rparr>"

definition iconPath :: "st \<Rightarrow> string" where
  "iconPath s = f_iconPath s"

definition scriptJob :: "st \<Rightarrow> nat option" where
  "scriptJob s = f_scriptJob s"

definition name :: "st \<Rightarrow> string" where
  "name s = strip (ui_name_text s)"

definition description :: "st \<Rightarrow> string" where
  "description s = strip (ui_comment_text s)"

definition folderPath :: "st \<Rightarrow> string" where
  "folderPath s = ui_folderEdit_text s"

definition setFolderPath :: "string \<Rightarrow> st \<Rightarrow> st" where
  "setFolderPath path s = s\<lparr>ui_folderEdit_text := path\<rparr>"

text \<open>
  \<open>browseFolder\<close>: the argument is the directory the file dialog returns, empty when
  the user dismisses it.
\<close>

definition browseFolder :: "string \<Rightarrow> st \<Rightarrow> st" where
  "browseFolder chosen s = (if chosen \<noteq> [] then setFolderPath chosen s else s)"

text \<open>
  \<open>updateThumbnailSize\<close>. The guard \<open>hasattr(self.ui, "thumbnailButton")\<close> holds in
  every constructed widget, since \<open>__init__\<close> dereferences the button before anything
  else; the size fields hold the \<open>QSize\<close> last handed to the setters.
\<close>

definition updateThumbnailSize :: "st \<Rightarrow> st" where
  "updateThumbnailSize s =
     (let width = widget_width s - 10;
          width = (if width > 250 then 250 else width);
          size = (width, width)
      in s\<lparr>ui_thumbnailButton_iconSize := size,
            ui_thumbnailButton_maximumSize := size,
            ui_thumbnailFrame_maximumSize := size\<rparr>)"

definition resizeEvent :: "st \<Rightarrow> st" where
  "resizeEvent s = updateThumbnailSize s"

definition setIcon :: "string \<Rightarrow> st \<Rightarrow> st" where
  "setIcon icon s =
     (emit (Button_setIcon icon) s)
       \<lparr>ui_thumbnailButton_icon := icon,
        ui_thumbnailButton_iconSize := (200, 200),
        ui_thumbnailButton_text := []\<rparr>"

definition setIconPath :: "string \<Rightarrow> st \<Rightarrow> st" where
  "setIconPath path s = updateThumbnailSize (setIcon path (s\<lparr>f_iconPath := path\<rparr>))"

definition thumbnailCaptured :: "string \<Rightarrow> st \<Rightarrow> st" where
  "thumbnailCaptured path s = setIconPath path s"

definition thumbnailCapture :: "env \<Rightarrow> st \<Rightarrow> st" where
  "thumbnailCapture e s =
     (let s1 = emit Gui_thumbnailCapture s
      in case captured e of None \<Rightarrow> s1 | Some path \<Rightarrow> thumbnailCaptured path s1)"

text \<open>
  Modelled from the spec: \<open>mutils.ScriptJob\<close>, its constructor and its \<open>kill\<close>, which
  are not part of the file. The glossary calls a script job ``a host-application event
  subscription that invokes a callback when the user's selection changes'', and the
  resource model has it ``cancelled'' on close: the constructor registers a fresh
  subscription, \<open>kill\<close> removes it. A \<open>ScriptJob\<close> object is truthy, as every object
  without \<open>__len__\<close> is.
\<close>

definition ScriptJob_kill_call :: "nat \<Rightarrow> st \<Rightarrow> st" where
  "ScriptJob_kill_call j s = (emit (ScriptJob_kill j) s)\<lparr>live_jobs := removeAll j (live_jobs s)\<rparr>"

definition ScriptJob_new_call :: "st \<Rightarrow> nat \<times> st" where
  "ScriptJob_new_call s =
     (let j = next_job s
      in (j, (emit (ScriptJob_new j) s)\<lparr>live_jobs := live_jobs s @ [j], next_job := Suc j\<rparr>))"

definition setScriptJobEnabled :: "bool \<Rightarrow> st \<Rightarrow> st" where
  "setScriptJobEnabled enable s =
     (if enable then
        (if scriptJob s = None then
           (let (j, s1) = ScriptJob_new_call s in s1\<lparr>f_scriptJob := Some j\<rparr>)
         else s)
      else
        (let s1 = (case scriptJob s of Some sj \<Rightarrow> ScriptJob_kill_call sj s | None \<Rightarrow> s)
         in s1\<lparr>f_scriptJob := None\<rparr>))"

definition close :: "st \<Rightarrow> st" where
  "close s = emit QWidget_close (setScriptJobEnabled False s)"

text \<open>\<open>os.path.exists\<close>: false on the empty path.\<close>

definition os_path_exists :: "st \<Rightarrow> string \<Rightarrow> bool" where
  "os_path_exists s p = (p \<noteq> [] \<and> p \<in> set (existing_files s))"

text \<open>\<open>maya.cmds.ls(selection=True) or []\<close>\<close>

definition ls_selection :: "st \<Rightarrow> string list" where
  "ls_selection s = (case maya_selection s of None \<Rightarrow> [] | Some objs \<Rightarrow> if objs = [] then [] else objs)"

definition showThumbnailCaptureDialog :: "env \<Rightarrow> st \<Rightarrow> button \<times> st" where
  "showThumbnailCaptureDialog e s =
     (let title = ''Create a thumbnail'';
          text = ''Would you like to capture a thumbnail?'';
          parent = item_libraryWindow s;
          s1 = emit (MessageBox_question parent title text) s;
          button = answer e;
          s2 = (if button = Yes then thumbnailCapture e s1 else s1)
      in (button, s2))"

definition save :: "env \<Rightarrow> string list \<Rightarrow> string \<Rightarrow> string \<Rightarrow> metadata \<Rightarrow> st \<Rightarrow> (py_exception + unit) \<times> st" where
  "save e objects path icon meta s =
     (let s1 = emit (Item_save objects path icon meta) s
      in case item_save e objects path icon meta of
           Some exc \<Rightarrow> (Inl exc, s1)
         | None \<Rightarrow> (Inr (), close s1))"

text \<open>The body of the \<open>try\<close> statement of \<open>accept\<close>.\<close>

definition accept_try :: "env \<Rightarrow> st \<Rightarrow> (py_exception + unit) \<times> st" where
  "accept_try e s =
     (let name = name s;
          path = folderPath s;
          objects = ls_selection s
      in if path = [] then
           (Inl (PyException ''No folder selected. Please select a destination folder.''), s)
         else if name = [] then
           (Inl (PyException ''No name specified. Please set a name before saving.''), s)
         else if objects = [] then
           (Inl (PyException ''No objects selected. Please select at least one object.''), s)
         else
           (let (cancel, s1) =
                  (if \<not> os_path_exists s (iconPath s) then
                     (let (button, s') = showThumbnailCaptureDialog e s in (button = Cancel, s'))
                   else (False, s))
            in if cancel then (Inr (), s1)
               else
                 (let path = path @ ''/'' @ name;
                      icon = iconPath s1;
                      meta = [''description'' \<mapsto> description s1]
                  in save e objects path icon meta s1)))"

text \<open>
  \<open>accept\<close>: the handler \<open>except Exception as e\<close> shows the critical dialog and
  re-raises; an exception that is no instance of \<open>Exception\<close> passes through it.
\<close>

definition accept :: "env \<Rightarrow> st \<Rightarrow> (py_exception + unit) \<times> st" where
  "accept e s =
     (case accept_try e s of
        (Inl exc, s1) \<Rightarrow>
          (if isinstance_Exception exc then
             (Inl exc, emit (MessageBox_critical (libraryWindow s1) ''Error while saving'' (str_exc exc)) s1)
           else (Inl exc, s1))
      | (Inr u, s1) \<Rightarrow> (Inr u, s1))"

subsection \<open>Construction and the widget's life\<close>

text \<open>
  \<open>__init__\<close>: the argument \<open>s0\<close> holds the widgets as \<open>studioqt.loadUi\<close> builds them
  and the host as it is; the constructor sets the fields, registers the script job
  (\<open>setScriptJobEnabled(True)\<close>), stores the item (\<open>setItem\<close>) and sizes the thumbnail
  (\<open>updateThumbnailSize\<close>), in that order. No subscription of the new widget exists
  before, and its trace starts empty.
\<close>

definition init :: "window \<Rightarrow> st \<Rightarrow> st" where
  "init item_window s0 =
     (let s1 = s0\<lparr>f_iconPath := [], f_scriptJob := None, live_jobs := [], trace := []\<rparr>;
          s2 = setScriptJobEnabled True s1;
          s3 = s2\<lparr>item_libraryWindow := item_window\<rparr>
      in updateThumbnailSize s3)"

text \<open>
  What can happen to a constructed widget: a call of one of its methods, an edit of
  one of its fields by the user, a resize, or a change in the host.
\<close>

datatype op =
    Call_setLibraryWindow window
  | Call_setIconPath string
  | Call_setIcon string
  | Call_setFolderPath string
  | Call_browseFolder string
  | Call_setScriptJobEnabled bool
  | Call_updateThumbnailSize
  | Call_thumbnailCapture env
  | Call_showThumbnailCaptureDialog env
  | Call_accept env
  | Call_save env "string list" string string metadata
  | Call_close
  | Resize int
  | Edit_name string
  | Edit_comment string
  | Host_selection "string list option"
  | Host_files "string list"

fun step :: "op \<Rightarrow> st \<Rightarrow> st" where
  "step (Call_setLibraryWindow w) s = setLibraryWindow w s"
| "step (Call_setIconPath p) s = setIconPath p s"
| "step (Call_setIcon icon) s = setIcon icon s"
| "step (Call_setFolderPath p) s = setFolderPath p s"
| "step (Call_browseFolder p) s = browseFolder p s"
| "step (Call_setScriptJobEnabled b) s = setScriptJobEnabled b s"
| "step Call_updateThumbnailSize s = updateThumbnailSize s"
| "step (Call_thumbnailCapture e) s = thumbnailCapture e s"
| "step (Call_showThumbnailCaptureDialog e) s = snd (showThumbnailCaptureDialog e s)"
| "step (Call_accept e) s = snd (accept e s)"
| "step (Call_save e objects path icon meta) s = snd (save e objects path icon meta s)"
| "step Call_close s = close s"
| "step (Resize w) s = resizeEvent (s\<lparr>widget_width := w\<rparr>)"
| "step (Edit_name t) s = s\<lparr>ui_name_text := t\<rparr>"
| "step (Edit_comment t) s = s\<lparr>ui_comment_text := t\<rparr>"
| "step (Host_selection sel) s = s\<lparr>maya_selection := sel\<rparr>"
| "step (Host_files fs) s = s\<lparr>existing_files := fs\<rparr>"

fun run :: "op list \<Rightarrow> st \<Rightarrow> st" where
  "run [] s = s"
| "run (x # xs) s = run xs (step x s)"

subsection \<open>Reading the trace\<close>

fun is_Item_save :: "event \<Rightarrow> bool" where
  "is_Item_save (Item_save objects path icon meta) = True"
| "is_Item_save ev = False"

fun is_critical :: "event \<Rightarrow> bool" where
  "is_critical (MessageBox_critical w title text) = True"
| "is_critical ev = False"

fun is_question :: "event \<Rightarrow> bool" where
  "is_question (MessageBox_question w title text) = True"
| "is_question ev = False"

fun is_kill :: "event \<Rightarrow> bool" where
  "is_kill (ScriptJob_kill j) = True"
| "is_kill ev = False"

text \<open>The calls made by a step: what it appended to the trace.\<close>

definition calls :: "st \<Rightarrow> st \<Rightarrow> event list" where
  "calls s s' = drop (length (trace s)) (trace s')"

text \<open>
  The subscriptions registered in the host are exactly the one the widget holds a
  handle of, if it holds one.
\<close>

definition job_invariant :: "st \<Rightarrow> bool" where
  "job_invariant s = (live_jobs s = (case scriptJob s of None \<Rightarrow> [] | Some j \<Rightarrow> [j]))"

text \<open>Two states with the same handle and the same registered subscriptions.\<close>

definition same_jobs :: "st \<Rightarrow> st \<Rightarrow> bool" where
  "same_jobs s s' = (f_scriptJob s' = f_scriptJob s \<and> live_jobs s' = live_jobs s)"

subsection \<open>A session\<close>

text \<open>
  A widget as the design file gives it, in a scene with two objects selected, and the
  users and items that the examples below meet.
\<close>

definition loaded_ui :: st where
  "loaded_ui =
     \<lparr>f_iconPath = [], f_scriptJob = None, item_libraryWindow = None,
      ui_name_text = [], ui_comment_text = [], ui_folderEdit_text = [],
      ui_thumbnailButton_icon = [], ui_thumbnailButton_text = ''Snapshot'',
      ui_thumbnailButton_iconSize = (0, 0),
      ui_thumbnailButton_maximumSize = (16777215, 16777215),
      ui_thumbnailFrame_maximumSize = (16777215, 16777215),
      widget_width = 400,
      maya_selection = Some [''pCube1'', ''pSphere1''],
      existing_files = [''/tmp/thumbnail.jpg''],
      live_jobs = [], next_job = 7, trace = []\<rparr>"

definition new_widget :: st where
  "new_widget = init (Some 1) loaded_ui"

definition filled_widget :: st where
  "filled_widget =
     run [Call_setFolderPath ''/library/poses'', Edit_name (CHR 0xA0 # '' walk '' @ [CHR 0x85]), Edit_comment ''first pass  '']
       new_widget"

definition pictured_widget :: st where
  "pictured_widget = step (Call_setIconPath ''/tmp/thumbnail.jpg'') filled_widget"

definition blank_name_widget :: st where
  "blank_name_widget = step (Edit_name [CHR 0xA0, CHR 0x09, CHR 0x20, CHR 0x85]) filled_widget"

definition unselected_widget :: st where
  "unselected_widget = step (Host_selection (Some [])) blank_name_widget"

definition blank_folder_widget :: st where
  "blank_folder_widget = step (Call_setFolderPath ''  '') filled_widget"

definition item_saves :: "string list \<Rightarrow> string \<Rightarrow> string \<Rightarrow> metadata \<Rightarrow> py_exception option" where
  "item_saves objects path icon meta = None"

definition item_fails :: "string list \<Rightarrow> string \<Rightarrow> string \<Rightarrow> metadata \<Rightarrow> py_exception option" where
  "item_fails objects path icon meta = Some (PyException ''The item already exists.'')"

definition item_interrupted :: "string list \<Rightarrow> string \<Rightarrow> string \<Rightarrow> metadata \<Rightarrow> py_exception option" where
  "item_interrupted objects path icon meta = Some (PyBaseException [])"

definition user_ignores :: env where
  "user_ignores = \<lparr>answer = Ignore, captured = None, item_save = item_saves\<rparr>"

definition user_cancels :: env where
  "user_cancels = \<lparr>answer = Cancel, captured = None, item_save = item_saves\<rparr>"

definition user_captures :: env where
  "user_captures = \<lparr>answer = Yes, captured = Some ''/tmp/thumbnail.jpg'', item_save = item_saves\<rparr>"

definition save_fails :: env where
  "save_fails = \<lparr>answer = Ignore, captured = None, item_save = item_fails\<rparr>"

definition save_interrupted :: env where
  "save_interrupted = \<lparr>answer = Ignore, captured = None, item_save = item_interrupted\<rparr>"

section \<open>Properties\<close>

subsection \<open>What each method appends to the trace\<close>

lemmas getter_defs = iconPath_def scriptJob_def folderPath_def libraryWindow_def

lemma trace_emit: "trace (emit ev s) = trace s @ [ev]"
  by (simp add: emit_def)

lemma calls_append: "trace s' = trace s @ evs \<Longrightarrow> calls s s' = evs"
  by (simp add: calls_def)

lemma calls_self: "calls s s = []"
  by (simp add: calls_def)

lemma trace_updateThumbnailSize: "trace (updateThumbnailSize s) = trace s"
  by (simp add: updateThumbnailSize_def Let_def)

lemma trace_setIconPath: "trace (setIconPath p s) = trace s @ [Button_setIcon p]"
  by (simp add: setIconPath_def setIcon_def emit_def trace_updateThumbnailSize)

lemma trace_thumbnailCapture:
  "trace (thumbnailCapture e s) =
     trace s @ Gui_thumbnailCapture # (case captured e of None \<Rightarrow> [] | Some p \<Rightarrow> [Button_setIcon p])"
  by (simp add: thumbnailCapture_def thumbnailCaptured_def trace_setIconPath trace_emit Let_def
        split: option.split)

lemma trace_showThumbnailCaptureDialog:
  "trace (snd (showThumbnailCaptureDialog e s)) =
     trace s @ MessageBox_question (item_libraryWindow s) ''Create a thumbnail''
                 ''Would you like to capture a thumbnail?''
       # (if answer e = Yes
          then Gui_thumbnailCapture # (case captured e of None \<Rightarrow> [] | Some p \<Rightarrow> [Button_setIcon p])
          else [])"
  by (simp add: showThumbnailCaptureDialog_def Let_def trace_thumbnailCapture trace_emit)

lemma trace_setScriptJobEnabled_False:
  "trace (setScriptJobEnabled False s) =
     trace s @ (case scriptJob s of None \<Rightarrow> [] | Some j \<Rightarrow> [ScriptJob_kill j])"
  by (simp add: setScriptJobEnabled_def ScriptJob_kill_call_def emit_def Let_def split: option.split)

lemma trace_close:
  "trace (close s) =
     trace s @ (case scriptJob s of None \<Rightarrow> [] | Some j \<Rightarrow> [ScriptJob_kill j]) @ [QWidget_close]"
  by (simp add: close_def trace_emit trace_setScriptJobEnabled_False)

lemma scriptJob_close: "scriptJob (close s) = None"
  by (simp add: close_def emit_def setScriptJobEnabled_def scriptJob_def Let_def)

lemma live_jobs_close:
  "live_jobs (close s) =
     (case scriptJob s of None \<Rightarrow> live_jobs s | Some j \<Rightarrow> removeAll j (live_jobs s))"
  by (simp add: close_def emit_def setScriptJobEnabled_def scriptJob_def ScriptJob_kill_call_def
        Let_def split: option.split)

lemma trace_save:
  "trace (snd (save e objects path icon meta s)) =
     trace s @ Item_save objects path icon meta #
       (case item_save e objects path icon meta of
          Some exc \<Rightarrow> []
        | None \<Rightarrow> (case scriptJob s of None \<Rightarrow> [] | Some j \<Rightarrow> [ScriptJob_kill j]) @ [QWidget_close])"
  by (simp add: save_def Let_def trace_close trace_emit scriptJob_def emit_def split: option.split)

subsection \<open>The branches of accept\<close>

lemma accept_try_no_folder:
  "folderPath s = [] \<Longrightarrow>
   accept_try e s = (Inl (PyException ''No folder selected. Please select a destination folder.''), s)"
  by (simp add: accept_try_def)

lemma accept_try_no_name:
  "folderPath s \<noteq> [] \<Longrightarrow> name s = [] \<Longrightarrow>
   accept_try e s = (Inl (PyException ''No name specified. Please set a name before saving.''), s)"
  by (simp add: accept_try_def)

lemma accept_try_no_objects:
  "folderPath s \<noteq> [] \<Longrightarrow> name s \<noteq> [] \<Longrightarrow> ls_selection s = [] \<Longrightarrow>
   accept_try e s = (Inl (PyException ''No objects selected. Please select at least one object.''), s)"
  by (simp add: accept_try_def)

lemma accept_try_valid:
  assumes "folderPath s \<noteq> []" "name s \<noteq> []" "ls_selection s \<noteq> []"
  shows "accept_try e s =
     (let s1 = (if os_path_exists s (iconPath s) then s else snd (showThumbnailCaptureDialog e s))
      in if \<not> os_path_exists s (iconPath s) \<and> answer e = Cancel then (Inr (), s1)
         else save e (ls_selection s) (folderPath s @ ''/'' @ name s) (iconPath s1)
                [''description'' \<mapsto> description s1] s1)"
  using assms by (simp add: accept_try_def showThumbnailCaptureDialog_def Let_def)

text \<open>What the thumbnail question leaves untouched, and what it changes.\<close>

lemma showThumbnailCaptureDialog_frame:
  "scriptJob (snd (showThumbnailCaptureDialog e s)) = scriptJob s"
  "live_jobs (snd (showThumbnailCaptureDialog e s)) = live_jobs s"
  "description (snd (showThumbnailCaptureDialog e s)) = description s"
  "libraryWindow (snd (showThumbnailCaptureDialog e s)) = libraryWindow s"
  by (simp_all add: showThumbnailCaptureDialog_def thumbnailCapture_def thumbnailCaptured_def
        setIconPath_def setIcon_def updateThumbnailSize_def emit_def Let_def scriptJob_def
        description_def libraryWindow_def split: option.split)

lemma iconPath_showThumbnailCaptureDialog:
  "iconPath (snd (showThumbnailCaptureDialog e s)) =
     (case captured e of None \<Rightarrow> iconPath s | Some p \<Rightarrow> if answer e = Yes then p else iconPath s)"
  by (simp add: showThumbnailCaptureDialog_def thumbnailCapture_def thumbnailCaptured_def
        setIconPath_def setIcon_def updateThumbnailSize_def emit_def Let_def iconPath_def
        split: option.split)

lemma libraryWindow_emit: "libraryWindow (emit ev s) = libraryWindow s"
  by (simp add: emit_def libraryWindow_def)

lemma fst_showThumbnailCaptureDialog: "fst (showThumbnailCaptureDialog e s) = answer e"
  by (simp add: showThumbnailCaptureDialog_def Let_def)

lemma accept_valid:
  assumes "folderPath s \<noteq> []" "name s \<noteq> []" "ls_selection s \<noteq> []"
  shows "accept e s =
     (let s1 = (if os_path_exists s (iconPath s) then s else snd (showThumbnailCaptureDialog e s));
          path = folderPath s @ ''/'' @ name s;
          meta = [''description'' \<mapsto> description s];
          s2 = emit (Item_save (ls_selection s) path (iconPath s1) meta) s1
      in if \<not> os_path_exists s (iconPath s) \<and> answer e = Cancel then (Inr (), s1)
         else (case item_save e (ls_selection s) path (iconPath s1) meta of
                 None \<Rightarrow> (Inr (), close s2)
               | Some exc \<Rightarrow>
                   (Inl exc,
                    if isinstance_Exception exc
                    then emit (MessageBox_critical (libraryWindow s) ''Error while saving'' (str_exc exc)) s2
                    else s2)))"
proof -
  define s1 where
    "s1 = (if os_path_exists s (iconPath s) then s else snd (showThumbnailCaptureDialog e s))"
  define path where "path = folderPath s @ ''/'' @ name s"
  define meta where "meta = [''description'' \<mapsto> description s]"
  define s2 where "s2 = emit (Item_save (ls_selection s) path (iconPath s1) meta) s1"
  have d: "description s1 = description s"
    by (simp add: s1_def showThumbnailCaptureDialog_frame)
  have w: "libraryWindow s2 = libraryWindow s"
    by (simp add: s2_def s1_def showThumbnailCaptureDialog_frame libraryWindow_emit)
  have body: "accept_try e s =
      (if \<not> os_path_exists s (iconPath s) \<and> answer e = Cancel then (Inr (), s1)
       else save e (ls_selection s) path (iconPath s1) meta s1)"
    unfolding accept_try_valid [OF assms, of e] Let_def s1_def [symmetric] d
      path_def [symmetric] meta_def [symmetric] ..
  have sv: "save e (ls_selection s) path (iconPath s1) meta s1 =
      (case item_save e (ls_selection s) path (iconPath s1) meta of
         Some exc \<Rightarrow> (Inl exc, s2) | None \<Rightarrow> (Inr (), close s2))"
    unfolding save_def Let_def s2_def [symmetric] ..
  show ?thesis
    unfolding Let_def s1_def [symmetric] path_def [symmetric] meta_def [symmetric]
      s2_def [symmetric]
    by (simp add: accept_def body sv w split: option.split)
qed

lemma calls_accept_valid:
  assumes "folderPath s \<noteq> []" "name s \<noteq> []" "ls_selection s \<noteq> []"
  shows "calls s (snd (accept e s)) =
     (let s1 = (if os_path_exists s (iconPath s) then s else snd (showThumbnailCaptureDialog e s));
          path = folderPath s @ ''/'' @ name s;
          meta = [''description'' \<mapsto> description s]
      in calls s s1 @
         (if \<not> os_path_exists s (iconPath s) \<and> answer e = Cancel then []
          else Item_save (ls_selection s) path (iconPath s1) meta #
            (case item_save e (ls_selection s) path (iconPath s1) meta of
               None \<Rightarrow> (case scriptJob s of None \<Rightarrow> [] | Some j \<Rightarrow> [ScriptJob_kill j]) @ [QWidget_close]
             | Some exc \<Rightarrow>
                 if isinstance_Exception exc
                 then [MessageBox_critical (libraryWindow s) ''Error while saving'' (str_exc exc)]
                 else [])))"
proof -
  define s1 where
    "s1 = (if os_path_exists s (iconPath s) then s else snd (showThumbnailCaptureDialog e s))"
  have "\<exists>evs. trace s1 = trace s @ evs"
    by (simp add: s1_def trace_showThumbnailCaptureDialog)
  then obtain evs where evs: "trace s1 = trace s @ evs" ..
  have sj: "scriptJob s1 = scriptJob s"
    by (simp add: s1_def showThumbnailCaptureDialog_frame)
  have sje: "\<And>ev. scriptJob (emit ev s1) = scriptJob s"
    by (simp add: emit_def scriptJob_def sj [unfolded scriptJob_def])
  have c1: "calls s s1 = evs" using evs by (rule calls_append)
  show ?thesis
    unfolding accept_valid [OF assms] Let_def s1_def [symmetric] c1
    by (simp add: calls_def evs trace_close trace_emit sje split: option.split)
qed

lemma calls_showThumbnailCaptureDialog:
  "calls s (snd (showThumbnailCaptureDialog e s)) =
     MessageBox_question (item_libraryWindow s) ''Create a thumbnail''
                 ''Would you like to capture a thumbnail?''
       # (if answer e = Yes
          then Gui_thumbnailCapture # (case captured e of None \<Rightarrow> [] | Some p \<Rightarrow> [Button_setIcon p])
          else [])"
  by (rule calls_append) (simp add: trace_showThumbnailCaptureDialog)

subsection \<open>The session, evaluated\<close>

lemmas session_defs = item_saves_def item_fails_def item_interrupted_def user_ignores_def
  user_cancels_def user_captures_def save_fails_def save_interrupted_def

lemmas method_defs = init_def setScriptJobEnabled_def ScriptJob_new_call_def ScriptJob_kill_call_def
  updateThumbnailSize_def emit_def setFolderPath_def scriptJob_def iconPath_def folderPath_def name_def
  description_def libraryWindow_def strip_def isspace_def ls_selection_def os_path_exists_def
  setIconPath_def setIcon_def

lemma new_widget_eq:
  "new_widget = loaded_ui\<lparr>f_scriptJob := Some 7, item_libraryWindow := Some 1,
      ui_thumbnailButton_iconSize := (250, 250), ui_thumbnailButton_maximumSize := (250, 250),
      ui_thumbnailFrame_maximumSize := (250, 250), live_jobs := [7], next_job := 8,
      trace := [ScriptJob_new 7]\<rparr>"
  by (simp add: new_widget_def loaded_ui_def method_defs Let_def)

lemma filled_widget_eq:
  "filled_widget = new_widget\<lparr>ui_name_text := CHR 0xA0 # '' walk '' @ [CHR 0x85], ui_comment_text := ''first pass  '',
      ui_folderEdit_text := ''/library/poses''\<rparr>"
  by (simp add: filled_widget_def new_widget_eq loaded_ui_def method_defs)

lemma filled_widget_reads:
  "folderPath filled_widget = ''/library/poses''"
  "name filled_widget = ''walk''"
  "description filled_widget = ''first pass''"
  "ls_selection filled_widget = [''pCube1'', ''pSphere1'']"
  "iconPath filled_widget = []"
  "os_path_exists filled_widget p = (p = ''/tmp/thumbnail.jpg'')"
  "scriptJob filled_widget = Some 7"
  "live_jobs filled_widget = [7]"
  "libraryWindow filled_widget = Some 1"
  "item_libraryWindow filled_widget = Some 1"
  "trace filled_widget = [ScriptJob_new 7]"
  by (auto simp add: filled_widget_eq new_widget_eq loaded_ui_def method_defs)

lemma unselected_widget_reads:
  "folderPath unselected_widget = ''/library/poses''"
  "ui_name_text unselected_widget = [CHR 0xA0, CHR 0x09, CHR 0x20, CHR 0x85]"
  "name unselected_widget = []"
  "ls_selection unselected_widget = []"
  by (simp_all add: unselected_widget_def blank_name_widget_def filled_widget_eq new_widget_eq
        loaded_ui_def method_defs)

lemma pictured_widget_eq:
  "pictured_widget = filled_widget\<lparr>f_iconPath := ''/tmp/thumbnail.jpg'',
      ui_thumbnailButton_icon := ''/tmp/thumbnail.jpg'', ui_thumbnailButton_text := [],
      trace := [ScriptJob_new 7, Button_setIcon ''/tmp/thumbnail.jpg'']\<rparr>"
  by (simp add: pictured_widget_def filled_widget_eq new_widget_eq loaded_ui_def method_defs Let_def)

lemma pictured_widget_reads:
  "folderPath pictured_widget = ''/library/poses''"
  "name pictured_widget = ''walk''"
  "description pictured_widget = ''first pass''"
  "ls_selection pictured_widget = [''pCube1'', ''pSphere1'']"
  "iconPath pictured_widget = ''/tmp/thumbnail.jpg''"
  "os_path_exists pictured_widget p = (p = ''/tmp/thumbnail.jpg'')"
  "scriptJob pictured_widget = Some 7"
  "live_jobs pictured_widget = [7]"
  "libraryWindow pictured_widget = Some 1"
  "item_libraryWindow pictured_widget = Some 1"
  "trace pictured_widget = [ScriptJob_new 7, Button_setIcon ''/tmp/thumbnail.jpg'']"
  by (auto simp add: pictured_widget_eq filled_widget_eq new_widget_eq loaded_ui_def method_defs)

subsection \<open>Refused saves\<close>

text \<open>
  C1. Whenever the folder path is empty, or the stripped name is empty, or the Maya
  selection is empty, \<open>accept\<close> raises an exception, shows it, and does not call
  \<open>item.save\<close>. The message is the folder message if the folder path is empty, else the
  name message if the name is empty, else the selection message: the checks run in
  that order. The three messages differ from one another.
\<close>

theorem accept_refuses_missing_input:
  assumes "folderPath s = [] \<or> name s = [] \<or> ls_selection s = []"
  shows "(\<exists>msg. accept e s =
            (Inl (PyException msg),
             emit (MessageBox_critical (libraryWindow s) ''Error while saving'' msg) s)
          \<and> msg = (if folderPath s = [] then ''No folder selected. Please select a destination folder.''
                   else if name s = [] then ''No name specified. Please set a name before saving.''
                   else ''No objects selected. Please select at least one object.''))
       \<and> filter is_Item_save (calls s (snd (accept e s))) = []
       \<and> ''No folder selected. Please select a destination folder.''
            \<noteq> ''No name specified. Please set a name before saving.''
       \<and> ''No folder selected. Please select a destination folder.''
            \<noteq> ''No objects selected. Please select at least one object.''
       \<and> ''No name specified. Please set a name before saving.''
            \<noteq> ''No objects selected. Please select at least one object.''"
proof -
  consider (folder) "folderPath s = []"
    | (name) "folderPath s \<noteq> []" "name s = []"
    | (objects) "folderPath s \<noteq> []" "name s \<noteq> []" "ls_selection s = []"
    using assms by blast
  then have acc: "accept e s =
      (Inl (PyException
             (if folderPath s = [] then ''No folder selected. Please select a destination folder.''
              else if name s = [] then ''No name specified. Please set a name before saving.''
              else ''No objects selected. Please select at least one object.'')),
       emit (MessageBox_critical (libraryWindow s) ''Error while saving''
              (if folderPath s = [] then ''No folder selected. Please select a destination folder.''
               else if name s = [] then ''No name specified. Please set a name before saving.''
               else ''No objects selected. Please select at least one object.'')) s)"
  proof cases
    case folder
    then show ?thesis by (simp add: accept_def accept_try_no_folder)
  next
    case name
    then show ?thesis by (simp add: accept_def accept_try_no_name)
  next
    case objects
    then show ?thesis by (simp add: accept_def accept_try_no_objects)
  qed
  have "filter is_Item_save (calls s (snd (accept e s))) = []"
    by (simp add: acc calls_def emit_def)
  with acc show ?thesis by simp
qed

theorem accept_refuses_missing_input_witness:
  "folderPath new_widget = []
   \<and> fst (accept user_ignores new_widget)
       = Inl (PyException ''No folder selected. Please select a destination folder.'')
   \<and> filter is_Item_save (calls new_widget (snd (accept user_ignores new_widget))) = []
   \<and> folderPath unselected_widget = ''/library/poses''
   \<and> ui_name_text unselected_widget = [CHR 0xA0, CHR 0x09, CHR 0x20, CHR 0x85]
   \<and> ls_selection unselected_widget = []
   \<and> fst (accept user_ignores unselected_widget)
       = Inl (PyException ''No name specified. Please set a name before saving.'')
   \<and> filter is_Item_save (calls unselected_widget (snd (accept user_ignores unselected_widget))) = []"
proof -
  have h: "folderPath new_widget = []"
    by (simp add: new_widget_eq loaded_ui_def folderPath_def)
  then have "folderPath new_widget = [] \<or> name new_widget = [] \<or> ls_selection new_widget = []"
    by simp
  from accept_refuses_missing_input [OF this, of user_ignores] h
  have a: "fst (accept user_ignores new_widget)
       = Inl (PyException ''No folder selected. Please select a destination folder.'')
   \<and> filter is_Item_save (calls new_widget (snd (accept user_ignores new_widget))) = []"
    by auto
  have "folderPath unselected_widget = [] \<or> name unselected_widget = []
      \<or> ls_selection unselected_widget = []"
    by (simp add: unselected_widget_reads)
  from accept_refuses_missing_input [OF this, of user_ignores]
  have b: "fst (accept user_ignores unselected_widget)
       = Inl (PyException ''No name specified. Please set a name before saving.'')
   \<and> filter is_Item_save (calls unselected_widget (snd (accept user_ignores unselected_widget))) = []"
    by (auto simp: unselected_widget_reads)
  from h a b show ?thesis by (simp add: unselected_widget_reads)
qed

subsection \<open>The thumbnail's size\<close>

text \<open>
  C10. \<open>updateThumbnailSize\<close> hands the square of side \<open>min (w - 10) 250\<close>, where \<open>w\<close>
  is the widget's width, to the button's icon size, the button's maximum size and the
  frame's maximum size; the side is at most 250 whatever the width.
\<close>

theorem updateThumbnailSize_square:
  "ui_thumbnailButton_iconSize (updateThumbnailSize s)
     = (min (widget_width s - 10) 250, min (widget_width s - 10) 250)
   \<and> ui_thumbnailButton_maximumSize (updateThumbnailSize s)
     = (min (widget_width s - 10) 250, min (widget_width s - 10) 250)
   \<and> ui_thumbnailFrame_maximumSize (updateThumbnailSize s)
     = (min (widget_width s - 10) 250, min (widget_width s - 10) 250)
   \<and> fst (ui_thumbnailButton_iconSize (updateThumbnailSize s)) \<le> 250"
  by (simp add: updateThumbnailSize_def Let_def min_def)

subsection \<open>The thumbnail question\<close>

text \<open>
  C2. When the three validations pass and no file exists at the widget's icon path,
  \<open>accept\<close> shows the thumbnail question once; if the user answers Cancel, \<open>accept\<close>
  returns normally having made no other call: \<open>item.save\<close> is not called, nothing is
  raised and the widget is not closed. When a file exists at the icon path the question
  is not shown.
\<close>

theorem accept_thumbnail_question:
  assumes "folderPath s \<noteq> []" "name s \<noteq> []" "ls_selection s \<noteq> []"
  shows "(\<not> os_path_exists s (iconPath s) \<longrightarrow>
            filter is_question (calls s (snd (accept e s)))
              = [MessageBox_question (item_libraryWindow s) ''Create a thumbnail''
                   ''Would you like to capture a thumbnail?'']
            \<and> (answer e = Cancel \<longrightarrow>
                 accept e s =
                   (Inr (), emit (MessageBox_question (item_libraryWindow s) ''Create a thumbnail''
                                    ''Would you like to capture a thumbnail?'') s)
                 \<and> filter is_Item_save (calls s (snd (accept e s))) = []
                 \<and> QWidget_close \<notin> set (calls s (snd (accept e s)))
                 \<and> scriptJob (snd (accept e s)) = scriptJob s))
       \<and> (os_path_exists s (iconPath s) \<longrightarrow>
            filter is_question (calls s (snd (accept e s))) = [])"
proof (cases "os_path_exists s (iconPath s)")
  case True
  then show ?thesis
    by (simp add: calls_accept_valid [OF assms] Let_def calls_self split: option.split)
next
  case False
  have q: "filter is_question (calls s (snd (accept e s)))
              = [MessageBox_question (item_libraryWindow s) ''Create a thumbnail''
                   ''Would you like to capture a thumbnail?'']"
    using False
    by (simp add: calls_accept_valid [OF assms] Let_def calls_showThumbnailCaptureDialog
          split: option.split)
  have c: "accept e s =
             (Inr (), emit (MessageBox_question (item_libraryWindow s) ''Create a thumbnail''
                                    ''Would you like to capture a thumbnail?'') s)"
    if "answer e = Cancel"
    using False that
    by (simp add: accept_valid [OF assms] Let_def showThumbnailCaptureDialog_def)
  show ?thesis using False q c
    by (simp add: calls_def emit_def scriptJob_def)
qed

theorem accept_thumbnail_question_witness:
  "\<not> os_path_exists filled_widget (iconPath filled_widget)
   \<and> answer user_cancels = Cancel
   \<and> fst (accept user_cancels filled_widget) = Inr ()
   \<and> calls filled_widget (snd (accept user_cancels filled_widget))
       = [MessageBox_question (Some 1) ''Create a thumbnail'' ''Would you like to capture a thumbnail?'']
   \<and> os_path_exists pictured_widget (iconPath pictured_widget)
   \<and> filter is_question (calls pictured_widget (snd (accept user_cancels pictured_widget))) = []"
  using accept_thumbnail_question [of filled_widget user_cancels]
    accept_thumbnail_question [of pictured_widget user_cancels]
  by (simp add: filled_widget_reads pictured_widget_reads user_cancels_def calls_def emit_def)

subsection \<open>What the item is asked to save\<close>

lemma iconPath_emit: "iconPath (emit ev s) = iconPath s"
  by (simp add: emit_def iconPath_def)

lemma iconPath_close: "iconPath (close s) = iconPath s"
  by (simp add: close_def setScriptJobEnabled_def ScriptJob_kill_call_def emit_def iconPath_def
        split: option.split)

lemma iconPath_accept_valid:
  assumes "folderPath s \<noteq> []" "name s \<noteq> []" "ls_selection s \<noteq> []"
  shows "iconPath (snd (accept e s)) =
     (if os_path_exists s (iconPath s) then iconPath s
      else case captured e of None \<Rightarrow> iconPath s
           | Some p \<Rightarrow> if answer e = Yes then p else iconPath s)"
  by (simp add: accept_valid [OF assms] Let_def iconPath_emit iconPath_close
        iconPath_showThumbnailCaptureDialog split: option.split)

text \<open>
  C5. When the validations pass and the user does not cancel the thumbnail question,
  \<open>accept\<close> calls \<open>item.save\<close> exactly once, with the selected Maya objects, the path
  made of the folder path, a slash and the stripped name, the widget's icon path, and
  the metadata that maps \<open>description\<close> to the stripped comment. The icon path is the
  one the widget holds when the call is made and when \<open>accept\<close> ends: the stored one,
  or the captured one when the user answered Yes and the capture reported a path.
\<close>

theorem accept_save_arguments:
  assumes "folderPath s \<noteq> []" "name s \<noteq> []" "maya_selection s = Some objs" "objs \<noteq> []"
      and "os_path_exists s (iconPath s) \<or> answer e \<noteq> Cancel"
  shows "filter is_Item_save (calls s (snd (accept e s)))
           = [Item_save objs (ui_folderEdit_text s @ ''/'' @ strip (ui_name_text s))
                (iconPath (snd (accept e s))) [''description'' \<mapsto> strip (ui_comment_text s)]]
       \<and> iconPath (snd (accept e s)) =
           (if os_path_exists s (iconPath s) then iconPath s
            else case captured e of None \<Rightarrow> iconPath s
                 | Some p \<Rightarrow> if answer e = Yes then p else iconPath s)"
proof -
  have sel: "ls_selection s = objs" "ls_selection s \<noteq> []"
    using assms(3,4) by (simp_all add: ls_selection_def)
  note valid = assms(1,2) sel(2)
  have ic: "iconPath (snd (accept e s)) =
           (if os_path_exists s (iconPath s) then iconPath s
            else case captured e of None \<Rightarrow> iconPath s
                 | Some p \<Rightarrow> if answer e = Yes then p else iconPath s)"
    by (rule iconPath_accept_valid [OF valid])
  have "filter is_Item_save (calls s (snd (accept e s)))
           = [Item_save objs (folderPath s @ ''/'' @ name s)
                (iconPath (snd (accept e s))) [''description'' \<mapsto> description s]]"
    using assms(5) unfolding ic
    by (auto simp add: calls_accept_valid [OF valid] Let_def calls_self
          calls_showThumbnailCaptureDialog iconPath_showThumbnailCaptureDialog sel(1)
          split: option.split)
  then show ?thesis using ic
    by (simp add: folderPath_def name_def description_def)
qed

theorem accept_save_arguments_witness:
  "maya_selection filled_widget = Some [''pCube1'', ''pSphere1'']
   \<and> ui_name_text filled_widget = CHR 0xA0 # '' walk '' @ [CHR 0x85]
   \<and> answer user_captures = Yes
   \<and> filter is_Item_save (calls filled_widget (snd (accept user_captures filled_widget)))
       = [Item_save [''pCube1'', ''pSphere1''] ''/library/poses/walk'' ''/tmp/thumbnail.jpg''
            [''description'' \<mapsto> ''first pass'']]"
proof -
  have sel: "maya_selection filled_widget = Some [''pCube1'', ''pSphere1'']"
    by (simp add: filled_widget_eq new_widget_eq loaded_ui_def)
  have fields: "ui_folderEdit_text filled_widget = ''/library/poses''"
        "strip (ui_name_text filled_widget) = ''walk''"
        "strip (ui_comment_text filled_widget) = ''first pass''"
    using filled_widget_reads(1,2,3) by (simp_all add: folderPath_def name_def description_def)
  have ans: "answer user_captures = Yes" "captured user_captures = Some ''/tmp/thumbnail.jpg''"
    by (simp_all add: user_captures_def)
  have nm: "ui_name_text filled_widget = CHR 0xA0 # '' walk '' @ [CHR 0x85]"
    by (simp add: filled_widget_eq)
  from accept_save_arguments [of filled_widget "[''pCube1'', ''pSphere1'']" user_captures]
  have "filter is_Item_save (calls filled_widget (snd (accept user_captures filled_widget)))
       = [Item_save [''pCube1'', ''pSphere1''] ''/library/poses/walk'' ''/tmp/thumbnail.jpg''
            [''description'' \<mapsto> ''first pass'']]"
    by (simp add: sel fields ans filled_widget_reads)
  with sel nm ans show ?thesis by blast
qed

subsection \<open>Validate, delegate, close\<close>

lemma accept_invalid:
  assumes "folderPath s = [] \<or> name s = [] \<or> ls_selection s = []"
  shows "\<exists>msg. accept e s =
            (Inl (PyException msg),
             emit (MessageBox_critical (libraryWindow s) ''Error while saving'' msg) s)"
proof -
  consider (folder) "folderPath s = []"
    | (name) "folderPath s \<noteq> []" "name s = []"
    | (objects) "folderPath s \<noteq> []" "name s \<noteq> []" "ls_selection s = []"
    using assms by blast
  then show ?thesis
  proof cases
    case folder
    then show ?thesis by (simp add: accept_def accept_try_no_folder)
  next
    case name
    then show ?thesis by (simp add: accept_def accept_try_no_name)
  next
    case objects
    then show ?thesis by (simp add: accept_def accept_try_no_objects)
  qed
qed

lemma dialog_calls:
  "QWidget_close \<notin> set (calls s (snd (showThumbnailCaptureDialog e s)))"
  "filter is_Item_save (calls s (snd (showThumbnailCaptureDialog e s))) = []"
  by (simp_all add: calls_showThumbnailCaptureDialog split: option.split)

lemma scriptJob_emit: "scriptJob (emit ev s) = scriptJob s"
  by (simp add: emit_def scriptJob_def)

lemma live_jobs_emit: "live_jobs (emit ev s) = live_jobs s"
  by (simp add: emit_def)

lemma filled_widget_valid:
  "folderPath filled_widget \<noteq> []" "name filled_widget \<noteq> []" "ls_selection filled_widget \<noteq> []"
  by (simp_all add: filled_widget_reads)

lemma accept_filled_widget:
  "fst (accept save_fails filled_widget) = Inl (PyException ''The item already exists.'')"
  "fst (accept user_ignores filled_widget) = Inr ()"
  "fst (accept save_interrupted filled_widget) = Inl (PyBaseException [])"
  by (simp_all add: accept_valid [OF filled_widget_valid] Let_def filled_widget_reads
        iconPath_showThumbnailCaptureDialog session_defs)

lemma calls_accept_filled_widget:
  "calls filled_widget (snd (accept save_fails filled_widget)) =
     [MessageBox_question (Some 1) ''Create a thumbnail'' ''Would you like to capture a thumbnail?'',
      Item_save [''pCube1'', ''pSphere1''] ''/library/poses/walk'' [] [''description'' \<mapsto> ''first pass''],
      MessageBox_critical (Some 1) ''Error while saving'' ''The item already exists.'']"
  "calls filled_widget (snd (accept user_ignores filled_widget)) =
     [MessageBox_question (Some 1) ''Create a thumbnail'' ''Would you like to capture a thumbnail?'',
      Item_save [''pCube1'', ''pSphere1''] ''/library/poses/walk'' [] [''description'' \<mapsto> ''first pass''],
      ScriptJob_kill 7, QWidget_close]"
  "calls filled_widget (snd (accept save_interrupted filled_widget)) =
     [MessageBox_question (Some 1) ''Create a thumbnail'' ''Would you like to capture a thumbnail?'',
      Item_save [''pCube1'', ''pSphere1''] ''/library/poses/walk'' [] [''description'' \<mapsto> ''first pass'']]"
  by (simp_all add: calls_accept_valid [OF filled_widget_valid]
        Let_def filled_widget_reads calls_showThumbnailCaptureDialog
        iconPath_showThumbnailCaptureDialog session_defs)

text \<open>
  C6. The calls of one \<open>accept\<close> come in the order validate, delegate, close.
  \<open>item.save\<close> is called only when the three validations have passed. The widget is
  closed only after \<open>item.save\<close> has been called and has returned: the calls are then
  the thumbnail question (if any), the one call of \<open>item.save\<close>, the kill of the script
  job and the close. If \<open>item.save\<close> raises, \<open>accept\<close> raises the same exception, the
  widget is not closed, and the script job handle and its registration are as before.
  And the flow does run to its end: when the validations pass, the user does not cancel
  and \<open>item.save\<close> returns, \<open>accept\<close> returns having made exactly the calls of the
  thumbnail question (none of them a save or a close), then \<open>item.save\<close>, then the
  kill of the script job held, then the close, and it leaves the handle \<open>None\<close>.
\<close>

theorem accept_validate_delegate_close:
  "(filter is_Item_save (calls s (snd (accept e s))) \<noteq> [] \<longrightarrow>
      folderPath s \<noteq> [] \<and> name s \<noteq> [] \<and> ls_selection s \<noteq> [])
   \<and> (QWidget_close \<in> set (calls s (snd (accept e s))) \<longrightarrow>
        (\<exists>pre objects path icon meta kills.
            calls s (snd (accept e s))
              = pre @ [Item_save objects path icon meta] @ kills @ [QWidget_close]
            \<and> item_save e objects path icon meta = None
            \<and> QWidget_close \<notin> set pre \<and> filter is_Item_save pre = []
            \<and> filter is_kill kills = kills))
   \<and> (\<forall>objects path icon meta exc.
        Item_save objects path icon meta \<in> set (calls s (snd (accept e s)))
        \<and> item_save e objects path icon meta = Some exc \<longrightarrow>
          fst (accept e s) = Inl exc
          \<and> QWidget_close \<notin> set (calls s (snd (accept e s)))
          \<and> scriptJob (snd (accept e s)) = scriptJob s
          \<and> live_jobs (snd (accept e s)) = live_jobs s)
   \<and> (\<forall>s1 path meta.
        folderPath s \<noteq> [] \<and> name s \<noteq> [] \<and> ls_selection s \<noteq> []
        \<and> (os_path_exists s (iconPath s) \<or> answer e \<noteq> Cancel)
        \<and> s1 = (if os_path_exists s (iconPath s) then s else snd (showThumbnailCaptureDialog e s))
        \<and> path = folderPath s @ ''/'' @ name s
        \<and> meta = [''description'' \<mapsto> description s]
        \<and> item_save e (ls_selection s) path (iconPath s1) meta = None \<longrightarrow>
          fst (accept e s) = Inr ()
          \<and> calls s (snd (accept e s))
              = calls s s1 @ [Item_save (ls_selection s) path (iconPath s1) meta]
                  @ (case scriptJob s of None \<Rightarrow> [] | Some j \<Rightarrow> [ScriptJob_kill j])
                  @ [QWidget_close]
          \<and> QWidget_close \<notin> set (calls s s1) \<and> filter is_Item_save (calls s s1) = []
          \<and> scriptJob (snd (accept e s)) = None
          \<and> live_jobs (snd (accept e s))
              = (case scriptJob s of None \<Rightarrow> live_jobs s | Some j \<Rightarrow> removeAll j (live_jobs s)))"
proof (cases "folderPath s = [] \<or> name s = [] \<or> ls_selection s = []")
  case True
  from accept_invalid [OF True, of e] obtain msg where
    "accept e s = (Inl (PyException msg),
             emit (MessageBox_critical (libraryWindow s) ''Error while saving'' msg) s)" ..
  then have "calls s (snd (accept e s)) = [MessageBox_critical (libraryWindow s) ''Error while saving'' msg]"
    by (simp add: calls_def emit_def)
  then show ?thesis using True by auto
next
  case False
  then have valid: "folderPath s \<noteq> []" "name s \<noteq> []" "ls_selection s \<noteq> []" by simp_all
  define s1 where
    "s1 = (if os_path_exists s (iconPath s) then s else snd (showThumbnailCaptureDialog e s))"
  define path where "path = folderPath s @ ''/'' @ name s"
  define meta where "meta = [''description'' \<mapsto> description s]"
  define kills where "kills = (case scriptJob s of None \<Rightarrow> [] | Some j \<Rightarrow> [ScriptJob_kill j])"
  have pre: "QWidget_close \<notin> set (calls s s1)" "filter is_Item_save (calls s s1) = []"
    by (simp_all add: s1_def calls_self dialog_calls)
  have pre': "\<And>a b c d. Item_save a b c d \<notin> set (calls s s1)"
    using pre(2) by (metis filter_empty_conv is_Item_save.simps(1))
  have k: "filter is_kill kills = kills" "QWidget_close \<notin> set kills"
     "\<And>a b c d. Item_save a b c d \<notin> set kills"
    by (simp_all add: kills_def split: option.split)
  have frame: "scriptJob s1 = scriptJob s" "live_jobs s1 = live_jobs s"
    by (simp_all add: s1_def showThumbnailCaptureDialog_frame)
  have cs: "calls s (snd (accept e s)) =
      calls s s1 @
         (if \<not> os_path_exists s (iconPath s) \<and> answer e = Cancel then []
          else Item_save (ls_selection s) path (iconPath s1) meta #
            (case item_save e (ls_selection s) path (iconPath s1) meta of
               None \<Rightarrow> kills @ [QWidget_close]
             | Some exc \<Rightarrow>
                 if isinstance_Exception exc
                 then [MessageBox_critical (libraryWindow s) ''Error while saving'' (str_exc exc)]
                 else []))"
    unfolding calls_accept_valid [OF valid] Let_def s1_def [symmetric] path_def [symmetric]
      meta_def [symmetric] kills_def [symmetric] ..
  have acc: "accept e s =
      (if \<not> os_path_exists s (iconPath s) \<and> answer e = Cancel then (Inr (), s1)
         else (case item_save e (ls_selection s) path (iconPath s1) meta of
                 None \<Rightarrow> (Inr (), close (emit (Item_save (ls_selection s) path (iconPath s1) meta) s1))
               | Some exc \<Rightarrow>
                   (Inl exc,
                    if isinstance_Exception exc
                    then emit (MessageBox_critical (libraryWindow s) ''Error while saving'' (str_exc exc))
                           (emit (Item_save (ls_selection s) path (iconPath s1) meta) s1)
                    else emit (Item_save (ls_selection s) path (iconPath s1) meta) s1)))"
    unfolding accept_valid [OF valid] Let_def s1_def [symmetric] path_def [symmetric]
      meta_def [symmetric] ..
  have one: "folderPath s \<noteq> [] \<and> name s \<noteq> [] \<and> ls_selection s \<noteq> []"
    using valid by simp
  have two: "\<exists>pre objects path icon meta kills.
            calls s (snd (accept e s))
              = pre @ [Item_save objects path icon meta] @ kills @ [QWidget_close]
            \<and> item_save e objects path icon meta = None
            \<and> QWidget_close \<notin> set pre \<and> filter is_Item_save pre = []
            \<and> filter is_kill kills = kills"
    if "QWidget_close \<in> set (calls s (snd (accept e s)))"
  proof -
    from that have nc: "\<not> (\<not> os_path_exists s (iconPath s) \<and> answer e = Cancel)"
      and ret: "item_save e (ls_selection s) path (iconPath s1) meta = None"
      using pre(1) by (auto simp: cs split: if_splits option.splits)
    have "calls s (snd (accept e s))
            = calls s s1 @ [Item_save (ls_selection s) path (iconPath s1) meta] @ kills @ [QWidget_close]"
      using nc ret by (simp add: cs)
    with ret pre k(1) show ?thesis by blast
  qed
  have three: "fst (accept e s) = Inl exc
          \<and> QWidget_close \<notin> set (calls s (snd (accept e s)))
          \<and> scriptJob (snd (accept e s)) = scriptJob s
          \<and> live_jobs (snd (accept e s)) = live_jobs s"
    if "Item_save objects p icon m \<in> set (calls s (snd (accept e s)))"
      and "item_save e objects p icon m = Some exc" for objects p icon m exc
  proof -
    from that(1) have nc: "\<not> (\<not> os_path_exists s (iconPath s) \<and> answer e = Cancel)"
      and args: "objects = ls_selection s" "p = path" "icon = iconPath s1" "m = meta"
      using pre' k(3) by (auto simp: cs split: if_splits option.splits)
    from that(2) have raises: "item_save e (ls_selection s) path (iconPath s1) meta = Some exc"
      by (simp add: args)
    have "QWidget_close \<notin> set (calls s (snd (accept e s)))"
      using nc raises pre(1) by (simp add: cs)
    moreover have "fst (accept e s) = Inl exc \<and> scriptJob (snd (accept e s)) = scriptJob s
        \<and> live_jobs (snd (accept e s)) = live_jobs s"
      using nc raises by (simp add: acc scriptJob_emit live_jobs_emit frame)
    ultimately show ?thesis by simp
  qed
  have four: "fst (accept e s) = Inr ()
          \<and> calls s (snd (accept e s))
              = calls s s1 @ [Item_save (ls_selection s) path (iconPath s1) meta] @ kills
                  @ [QWidget_close]
          \<and> QWidget_close \<notin> set (calls s s1) \<and> filter is_Item_save (calls s s1) = []
          \<and> scriptJob (snd (accept e s)) = None
          \<and> live_jobs (snd (accept e s))
              = (case scriptJob s of None \<Rightarrow> live_jobs s | Some j \<Rightarrow> removeAll j (live_jobs s))"
    if nc: "os_path_exists s (iconPath s) \<or> answer e \<noteq> Cancel"
      and ret: "item_save e (ls_selection s) path (iconPath s1) meta = None"
  proof -
    have "calls s (snd (accept e s))
              = calls s s1 @ [Item_save (ls_selection s) path (iconPath s1) meta] @ kills
                  @ [QWidget_close]"
      using nc ret by (simp add: cs)
    moreover have "fst (accept e s) = Inr () \<and> scriptJob (snd (accept e s)) = None
          \<and> live_jobs (snd (accept e s))
              = (case scriptJob s of None \<Rightarrow> live_jobs s | Some j \<Rightarrow> removeAll j (live_jobs s))"
      using nc ret
      by (auto simp add: acc scriptJob_close live_jobs_close scriptJob_emit live_jobs_emit frame
            split: option.split)
    ultimately show ?thesis using pre by simp
  qed
  from one two three four show ?thesis
    unfolding s1_def [symmetric] path_def [symmetric] meta_def [symmetric] kills_def [symmetric]
    by blast
qed

theorem accept_validate_delegate_close_witness:
  "Item_save [''pCube1'', ''pSphere1''] ''/library/poses/walk'' [] [''description'' \<mapsto> ''first pass'']
     \<in> set (calls filled_widget (snd (accept save_fails filled_widget)))
   \<and> item_save save_fails [''pCube1'', ''pSphere1''] ''/library/poses/walk'' []
        [''description'' \<mapsto> ''first pass''] = Some (PyException ''The item already exists.'')
   \<and> fst (accept save_fails filled_widget) = Inl (PyException ''The item already exists.'')
   \<and> QWidget_close \<notin> set (calls filled_widget (snd (accept save_fails filled_widget)))
   \<and> scriptJob (snd (accept save_fails filled_widget)) = Some 7
   \<and> live_jobs (snd (accept save_fails filled_widget)) = [7]
   \<and> item_save user_ignores [''pCube1'', ''pSphere1''] ''/library/poses/walk'' []
        [''description'' \<mapsto> ''first pass''] = None
   \<and> fst (accept user_ignores filled_widget) = Inr ()
   \<and> calls filled_widget (snd (accept user_ignores filled_widget)) =
       [MessageBox_question (Some 1) ''Create a thumbnail'' ''Would you like to capture a thumbnail?'',
        Item_save [''pCube1'', ''pSphere1''] ''/library/poses/walk'' [] [''description'' \<mapsto> ''first pass''],
        ScriptJob_kill 7, QWidget_close]
   \<and> scriptJob (snd (accept user_ignores filled_widget)) = None
   \<and> live_jobs (snd (accept user_ignores filled_widget)) = []
   \<and> (\<exists>pre objects path icon meta kills.
         calls filled_widget (snd (accept user_ignores filled_widget))
           = pre @ [Item_save objects path icon meta] @ kills @ [QWidget_close]
         \<and> item_save user_ignores objects path icon meta = None
         \<and> QWidget_close \<notin> set pre \<and> filter is_Item_save pre = []
         \<and> filter is_kill kills = kills)
   \<and> folderPath filled_widget \<noteq> []"
proof -
  note fails = accept_validate_delegate_close [of filled_widget save_fails]
  note saves = accept_validate_delegate_close [of filled_widget user_ignores]
  have a: "Item_save [''pCube1'', ''pSphere1''] ''/library/poses/walk'' [] [''description'' \<mapsto> ''first pass'']
     \<in> set (calls filled_widget (snd (accept save_fails filled_widget)))"
    by (simp add: calls_accept_filled_widget(1))
  have b: "item_save save_fails [''pCube1'', ''pSphere1''] ''/library/poses/walk'' []
        [''description'' \<mapsto> ''first pass''] = Some (PyException ''The item already exists.'')"
    by (simp add: save_fails_def item_fails_def)
  from fails a b
  have c: "fst (accept save_fails filled_widget) = Inl (PyException ''The item already exists.'')
   \<and> QWidget_close \<notin> set (calls filled_widget (snd (accept save_fails filled_widget)))
   \<and> scriptJob (snd (accept save_fails filled_widget)) = scriptJob filled_widget
   \<and> live_jobs (snd (accept save_fails filled_widget)) = live_jobs filled_widget"
    by blast
  define s1 where "s1 = snd (showThumbnailCaptureDialog user_ignores filled_widget)"
  define path where "path = folderPath filled_widget @ ''/'' @ name filled_widget"
  define meta where "meta = [''description'' \<mapsto> description filled_widget]"
  have icon: "iconPath s1 = []"
    by (simp add: s1_def iconPath_showThumbnailCaptureDialog user_ignores_def filled_widget_reads)
  have ret: "item_save user_ignores (ls_selection filled_widget) path (iconPath s1) meta = None"
    by (simp add: user_ignores_def item_saves_def)
  have pre: "folderPath filled_widget \<noteq> [] \<and> name filled_widget \<noteq> []
      \<and> ls_selection filled_widget \<noteq> []
      \<and> (os_path_exists filled_widget (iconPath filled_widget) \<or> answer user_ignores \<noteq> Cancel)
      \<and> s1 = (if os_path_exists filled_widget (iconPath filled_widget) then filled_widget
               else snd (showThumbnailCaptureDialog user_ignores filled_widget))
      \<and> path = folderPath filled_widget @ ''/'' @ name filled_widget
      \<and> meta = [''description'' \<mapsto> description filled_widget]
      \<and> item_save user_ignores (ls_selection filled_widget) path (iconPath s1) meta = None"
    using ret by (simp add: s1_def path_def meta_def filled_widget_reads user_ignores_def)
  from saves pre
  have d: "fst (accept user_ignores filled_widget) = Inr ()
      \<and> calls filled_widget (snd (accept user_ignores filled_widget))
          = calls filled_widget s1 @ [Item_save (ls_selection filled_widget) path (iconPath s1) meta]
              @ (case scriptJob filled_widget of None \<Rightarrow> [] | Some j \<Rightarrow> [ScriptJob_kill j])
              @ [QWidget_close]
      \<and> scriptJob (snd (accept user_ignores filled_widget)) = None
      \<and> live_jobs (snd (accept user_ignores filled_widget))
          = (case scriptJob filled_widget of None \<Rightarrow> live_jobs filled_widget
             | Some j \<Rightarrow> removeAll j (live_jobs filled_widget))"
    by blast
  have dialog: "calls filled_widget s1 =
      [MessageBox_question (Some 1) ''Create a thumbnail'' ''Would you like to capture a thumbnail?'']"
    by (simp add: s1_def calls_showThumbnailCaptureDialog user_ignores_def filled_widget_reads)
  from d have e: "fst (accept user_ignores filled_widget) = Inr ()
      \<and> calls filled_widget (snd (accept user_ignores filled_widget)) =
       [MessageBox_question (Some 1) ''Create a thumbnail'' ''Would you like to capture a thumbnail?'',
        Item_save [''pCube1'', ''pSphere1''] ''/library/poses/walk'' [] [''description'' \<mapsto> ''first pass''],
        ScriptJob_kill 7, QWidget_close]
      \<and> scriptJob (snd (accept user_ignores filled_widget)) = None
      \<and> live_jobs (snd (accept user_ignores filled_widget)) = []"
    by (simp add: dialog icon path_def meta_def filled_widget_reads)
  then have "QWidget_close \<in> set (calls filled_widget (snd (accept user_ignores filled_widget)))"
    by simp
  with saves have f: "\<exists>pre objects path icon meta kills.
         calls filled_widget (snd (accept user_ignores filled_widget))
           = pre @ [Item_save objects path icon meta] @ kills @ [QWidget_close]
         \<and> item_save user_ignores objects path icon meta = None
         \<and> QWidget_close \<notin> set pre \<and> filter is_Item_save pre = []
         \<and> filter is_kill kills = kills"
    by blast
  have g: "item_save user_ignores [''pCube1'', ''pSphere1''] ''/library/poses/walk'' []
        [''description'' \<mapsto> ''first pass''] = None"
    by (simp add: user_ignores_def item_saves_def)
  from a b c e f g show ?thesis by (simp add: filled_widget_reads)
qed

subsection \<open>The error dialog\<close>

lemma libraryWindow_close: "libraryWindow (close s) = libraryWindow s"
  by (simp add: close_def setScriptJobEnabled_def ScriptJob_kill_call_def emit_def libraryWindow_def
        split: option.split)

lemma libraryWindow_accept_try: "libraryWindow (snd (accept_try e s)) = libraryWindow s"
proof (cases "folderPath s = [] \<or> name s = [] \<or> ls_selection s = []")
  case True
  then consider (folder) "folderPath s = []"
    | (name) "folderPath s \<noteq> []" "name s = []"
    | (objects) "folderPath s \<noteq> []" "name s \<noteq> []" "ls_selection s = []"
    by blast
  then show ?thesis
    by cases (simp_all add: accept_try_no_folder accept_try_no_name accept_try_no_objects)
next
  case False
  then have valid: "folderPath s \<noteq> []" "name s \<noteq> []" "ls_selection s \<noteq> []" by simp_all
  show ?thesis
    by (simp add: accept_try_valid [OF valid] Let_def save_def libraryWindow_close
          libraryWindow_emit showThumbnailCaptureDialog_frame split: option.split)
qed

text \<open>
  C4, as the code has it. \<open>accept\<close> raises exactly what the body of its \<open>try\<close>
  raises. When that exception is an instance of \<open>Exception\<close>, which the three validation
  failures are, the last call before it leaves \<open>accept\<close> is the critical dialog of the
  library window, titled ``Error while saving'', whose text is the exception's message.
  An exception that is no instance of \<open>Exception\<close> leaves \<open>accept\<close> with no dialog.
\<close>

theorem accept_shows_Exception_instances:
  "fst (accept e s) = fst (accept_try e s)
   \<and> (\<forall>exc. fst (accept e s) = Inl exc \<and> isinstance_Exception exc \<longrightarrow>
         snd (accept e s)
           = emit (MessageBox_critical (libraryWindow s) ''Error while saving'' (str_exc exc))
               (snd (accept_try e s)))
   \<and> (\<forall>exc. fst (accept e s) = Inl exc \<and> \<not> isinstance_Exception exc \<longrightarrow>
         snd (accept e s) = snd (accept_try e s))
   \<and> (folderPath s = [] \<or> name s = [] \<or> ls_selection s = [] \<longrightarrow>
         (\<exists>msg. fst (accept e s) = Inl (PyException msg)
            \<and> snd (accept e s)
                 = emit (MessageBox_critical (libraryWindow s) ''Error while saving'' msg) s))"
proof -
  obtain r s1 where body: "accept_try e s = (r, s1)" by (cases "accept_try e s")
  have w: "libraryWindow s1 = libraryWindow s"
    using libraryWindow_accept_try [of e s] by (simp add: body)
  have "fst (accept e s) = fst (accept_try e s)"
    by (simp add: accept_def body split: sum.split)
  moreover have "snd (accept e s)
           = emit (MessageBox_critical (libraryWindow s) ''Error while saving'' (str_exc exc))
               (snd (accept_try e s))"
    if "fst (accept e s) = Inl exc" "isinstance_Exception exc" for exc
    using that by (simp add: accept_def body w split: sum.splits if_splits)
  moreover have "snd (accept e s) = snd (accept_try e s)"
    if "fst (accept e s) = Inl exc" "\<not> isinstance_Exception exc" for exc
    using that by (simp add: accept_def body split: sum.splits if_splits)
  moreover have "\<exists>msg. fst (accept e s) = Inl (PyException msg)
            \<and> snd (accept e s)
                 = emit (MessageBox_critical (libraryWindow s) ''Error while saving'' msg) s"
    if "folderPath s = [] \<or> name s = [] \<or> ls_selection s = []"
    using accept_invalid [OF that, of e] by auto
  ultimately show ?thesis by blast
qed

theorem accept_shows_Exception_instances_witness:
  "fst (accept save_fails filled_widget) = Inl (PyException ''The item already exists.'')
   \<and> isinstance_Exception (PyException ''The item already exists.'')
   \<and> snd (accept save_fails filled_widget)
       = emit (MessageBox_critical (Some 1) ''Error while saving'' ''The item already exists.'')
           (snd (accept_try save_fails filled_widget))"
proof -
  have a: "fst (accept save_fails filled_widget) = Inl (PyException ''The item already exists.'')"
    by (rule accept_filled_widget(1))
  have b: "isinstance_Exception (PyException ''The item already exists.'')" by simp
  from accept_shows_Exception_instances [of save_fails filled_widget] a b
  have "snd (accept save_fails filled_widget)
           = emit (MessageBox_critical (libraryWindow filled_widget) ''Error while saving''
                     (str_exc (PyException ''The item already exists.'')))
               (snd (accept_try save_fails filled_widget))"
    by blast
  then show ?thesis using a b by (simp add: filled_widget_reads)
qed

text \<open>
  C4 as stated fails: when \<open>item.save\<close> is interrupted (\<open>KeyboardInterrupt\<close>, which
  \<open>except Exception\<close> does not catch), the exception leaves \<open>accept\<close> and no critical
  dialog has been shown.
\<close>

theorem accept_interrupt_counterexample:
  "fst (accept save_interrupted filled_widget) = Inl (PyBaseException [])
   \<and> filter is_critical (calls filled_widget (snd (accept save_interrupted filled_widget))) = []"
  by (simp add: accept_filled_widget calls_accept_filled_widget)

subsection \<open>Closing\<close>

lemma close_repeated:
  "scriptJob ((close ^^ Suc n) s) = None
   \<and> trace ((close ^^ Suc n) s) =
       trace s @ (case scriptJob s of None \<Rightarrow> [] | Some j \<Rightarrow> [ScriptJob_kill j])
         @ replicate (Suc n) QWidget_close"
proof (induction n)
  case 0
  show ?case by (simp add: scriptJob_close trace_close)
next
  case (Suc n)
  then show ?case
    by (simp add: scriptJob_close trace_close replicate_append_same)
qed

text \<open>
  C3. When \<open>item.save\<close> returns, the widget's \<open>save\<close> calls \<open>close\<close>, which is its last
  call. \<open>close\<close> disables the script job and then closes the Qt widget. After one
  \<open>close\<close> the script job handle is \<open>None\<close>, and a second \<open>close\<close> kills nothing. Over
  any number of successive \<open>close\<close> calls, a subscription the widget held is killed
  exactly once, and a widget that held none kills nothing.
\<close>

theorem save_closes_once:
  "(item_save e objects path icon meta = None \<longrightarrow>
       save e objects path icon meta s = (Inr (), close (emit (Item_save objects path icon meta) s))
       \<and> last (calls s (snd (save e objects path icon meta s))) = QWidget_close)
   \<and> close s = emit QWidget_close (setScriptJobEnabled False s)
   \<and> scriptJob (close s) = None
   \<and> filter is_kill (calls (close s) (close (close s))) = []
   \<and> filter is_kill (calls s ((close ^^ Suc n) s))
       = (case scriptJob s of None \<Rightarrow> [] | Some j \<Rightarrow> [ScriptJob_kill j])
   \<and> (\<forall>j. scriptJob s = Some j \<longrightarrow>
         length (filter is_kill (calls s ((close ^^ Suc n) s))) = 1)"
proof -
  have a: "save e objects path icon meta s = (Inr (), close (emit (Item_save objects path icon meta) s))
       \<and> last (calls s (snd (save e objects path icon meta s))) = QWidget_close"
    if "item_save e objects path icon meta = None"
  proof -
    have "calls s (snd (save e objects path icon meta s)) =
        Item_save objects path icon meta #
          (case scriptJob s of None \<Rightarrow> [] | Some j \<Rightarrow> [ScriptJob_kill j]) @ [QWidget_close]"
      by (rule calls_append) (simp add: trace_save that)
    then show ?thesis using that by (simp add: save_def Let_def)
  qed
  have b: "filter is_kill (calls (close s) (close (close s))) = []"
  proof -
    have "calls (close s) (close (close s)) = [QWidget_close]"
      by (rule calls_append) (simp add: trace_close [of "close s"] scriptJob_close)
    then show ?thesis by simp
  qed
  have c: "filter is_kill (calls s ((close ^^ Suc n) s))
       = (case scriptJob s of None \<Rightarrow> [] | Some j \<Rightarrow> [ScriptJob_kill j])"
  proof -
    have "calls s ((close ^^ Suc n) s) =
        (case scriptJob s of None \<Rightarrow> [] | Some j \<Rightarrow> [ScriptJob_kill j])
         @ replicate (Suc n) QWidget_close"
      by (rule calls_append) (rule close_repeated [THEN conjunct2])
    then show ?thesis by (simp split: option.split)
  qed
  have d: "close s = emit QWidget_close (setScriptJobEnabled False s)"
    by (rule close_def)
  have f: "length (filter is_kill (calls s ((close ^^ Suc n) s))) = 1" if "scriptJob s = Some j" for j
    unfolding c by (simp add: that)
  from a b c d f scriptJob_close [of s] show ?thesis by blast
qed

theorem save_closes_once_witness:
  "item_save user_ignores [''pCube1''] ''/library/poses/walk'' [] Map.empty = None
   \<and> last (calls new_widget (snd (save user_ignores [''pCube1''] ''/library/poses/walk'' [] Map.empty new_widget)))
       = QWidget_close
   \<and> scriptJob new_widget = Some 7
   \<and> filter is_kill (calls new_widget ((close ^^ Suc 2) new_widget)) = [ScriptJob_kill 7]"
proof -
  have a: "item_save user_ignores [''pCube1''] ''/library/poses/walk'' [] Map.empty = None"
    by (simp add: user_ignores_def item_saves_def)
  have b: "scriptJob new_widget = Some 7"
    by (simp add: new_widget_eq loaded_ui_def scriptJob_def)
  note t = save_closes_once [of user_ignores "[''pCube1'']" "''/library/poses/walk''" "[]" Map.empty
      new_widget 2]
  from t a have c: "last (calls new_widget
      (snd (save user_ignores [''pCube1''] ''/library/poses/walk'' [] Map.empty new_widget)))
       = QWidget_close"
    by blast
  from t have "filter is_kill (calls new_widget ((close ^^ Suc 2) new_widget))
       = (case scriptJob new_widget of None \<Rightarrow> [] | Some j \<Rightarrow> [ScriptJob_kill j])"
    by blast
  then have d: "filter is_kill (calls new_widget ((close ^^ Suc 2) new_widget)) = [ScriptJob_kill 7]"
    by (simp only: b option.case)
  from a b c d show ?thesis by blast
qed

subsection \<open>One script job\<close>

lemma same_jobs_refl: "same_jobs s s"
  by (simp add: same_jobs_def)

lemma same_jobs_emit: "same_jobs s (emit ev s)"
  by (simp add: same_jobs_def emit_def)

lemma same_jobs_trans: "same_jobs s s' \<Longrightarrow> same_jobs s' s'' \<Longrightarrow> same_jobs s s''"
  by (simp add: same_jobs_def)

lemma same_jobs_setIconPath: "same_jobs s (setIconPath p s)"
  by (simp add: same_jobs_def setIconPath_def setIcon_def updateThumbnailSize_def emit_def Let_def)

lemma same_jobs_thumbnailCapture: "same_jobs s (thumbnailCapture e s)"
  by (simp add: same_jobs_def thumbnailCapture_def thumbnailCaptured_def setIconPath_def setIcon_def
        updateThumbnailSize_def emit_def Let_def split: option.split)

lemma same_jobs_showThumbnailCaptureDialog: "same_jobs s (snd (showThumbnailCaptureDialog e s))"
  using showThumbnailCaptureDialog_frame(1,2) [of e s] by (simp add: same_jobs_def scriptJob_def)

lemma job_invariant_same: "same_jobs s s' \<Longrightarrow> job_invariant s \<Longrightarrow> job_invariant s'"
  by (simp add: same_jobs_def job_invariant_def scriptJob_def)

lemma job_invariant_setScriptJobEnabled:
  "job_invariant s \<Longrightarrow> job_invariant (setScriptJobEnabled b s)"
  by (auto simp: job_invariant_def setScriptJobEnabled_def ScriptJob_new_call_def
        ScriptJob_kill_call_def emit_def scriptJob_def Let_def split: option.splits)

lemma job_invariant_close: "job_invariant s \<Longrightarrow> job_invariant (close s)"
  unfolding close_def
  by (rule job_invariant_same [OF same_jobs_emit]) (rule job_invariant_setScriptJobEnabled)

lemma job_invariant_save:
  "job_invariant s \<Longrightarrow> job_invariant (snd (save e objects path icon meta s))"
  by (auto simp: save_def Let_def split: option.split
        intro: job_invariant_close job_invariant_same [OF same_jobs_emit])

lemma job_invariant_accept:
  assumes "job_invariant s"
  shows "job_invariant (snd (accept e s))"
proof (cases "folderPath s = [] \<or> name s = [] \<or> ls_selection s = []")
  case True
  from accept_invalid [OF True, of e] show ?thesis
    using assms by (auto intro: job_invariant_same [OF same_jobs_emit])
next
  case False
  then have valid: "folderPath s \<noteq> []" "name s \<noteq> []" "ls_selection s \<noteq> []" by simp_all
  define s1 where
    "s1 = (if os_path_exists s (iconPath s) then s else snd (showThumbnailCaptureDialog e s))"
  have "same_jobs s s1"
    by (simp add: s1_def same_jobs_refl same_jobs_showThumbnailCaptureDialog)
  then have i1: "job_invariant s1" using assms by (rule job_invariant_same)
  have i2: "\<And>ev. job_invariant (emit ev s1)"
    using i1 by (rule job_invariant_same [OF same_jobs_emit])
  have i3: "\<And>ev ev'. job_invariant (emit ev' (emit ev s1))"
    using i2 by (rule job_invariant_same [OF same_jobs_emit])
  show ?thesis
    unfolding accept_valid [OF valid] Let_def s1_def [symmetric]
    by (simp add: i1 i2 i3 job_invariant_close split: option.split)
qed

lemma same_jobs_simple:
  "same_jobs s (setLibraryWindow w s)"
  "same_jobs s (setFolderPath p s)"
  "same_jobs s (browseFolder p s)"
  "same_jobs s (updateThumbnailSize s)"
  "same_jobs s (resizeEvent (s\<lparr>widget_width := i\<rparr>))"
  "same_jobs s (s\<lparr>ui_name_text := p\<rparr>)"
  "same_jobs s (s\<lparr>ui_comment_text := p\<rparr>)"
  "same_jobs s (s\<lparr>maya_selection := sel\<rparr>)"
  "same_jobs s (s\<lparr>existing_files := fs\<rparr>)"
  "same_jobs s (setIcon p s)"
  by (simp_all add: same_jobs_def setLibraryWindow_def setFolderPath_def browseFolder_def
        updateThumbnailSize_def resizeEvent_def setIcon_def emit_def Let_def)

lemma job_invariant_step:
  assumes "job_invariant s"
  shows "job_invariant (step x s)"
proof (cases x)
  case (Call_accept e)
  then show ?thesis using assms by (simp add: job_invariant_accept)
next
  case (Call_save e objects path icon meta)
  then show ?thesis using assms by (simp add: job_invariant_save)
next
  case (Call_setScriptJobEnabled b)
  then show ?thesis using assms by (simp add: job_invariant_setScriptJobEnabled)
next
  case Call_close
  then show ?thesis using assms by (simp add: job_invariant_close)
next
  case (Call_setIconPath p)
  then show ?thesis using job_invariant_same [OF same_jobs_setIconPath assms] by simp
next
  case (Call_thumbnailCapture e)
  then show ?thesis using job_invariant_same [OF same_jobs_thumbnailCapture assms] by simp
next
  case (Call_showThumbnailCaptureDialog e)
  then show ?thesis
    using job_invariant_same [OF same_jobs_showThumbnailCaptureDialog assms] by simp
qed (simp_all add: job_invariant_same [OF same_jobs_simple(1) assms]
      job_invariant_same [OF same_jobs_simple(2) assms]
      job_invariant_same [OF same_jobs_simple(3) assms]
      job_invariant_same [OF same_jobs_simple(4) assms]
      job_invariant_same [OF same_jobs_simple(5) assms]
      job_invariant_same [OF same_jobs_simple(6) assms]
      job_invariant_same [OF same_jobs_simple(7) assms]
      job_invariant_same [OF same_jobs_simple(8) assms]
      job_invariant_same [OF same_jobs_simple(9) assms]
      job_invariant_same [OF same_jobs_simple(10) assms])

lemma job_invariant_init: "job_invariant (init w s0)"
  by (simp add: job_invariant_def init_def setScriptJobEnabled_def ScriptJob_new_call_def
        updateThumbnailSize_def emit_def scriptJob_def Let_def)

lemma job_invariant_run: "job_invariant s \<Longrightarrow> job_invariant (run ops s)"
  by (induction ops arbitrary: s) (simp_all add: job_invariant_step)

text \<open>
  C7. In every state that a constructed widget reaches, the subscriptions of the widget
  registered in the host are exactly the one it holds a handle of, so there is at most
  one. \<open>setScriptJobEnabled(True)\<close> does nothing when a handle is held and registers one
  subscription when none is; \<open>setScriptJobEnabled(False)\<close> kills the subscription held,
  if any, and resets the handle to \<open>None\<close>. After \<open>close\<close> the handle is \<open>None\<close> and no
  subscription of the widget is left in the host.
\<close>

theorem one_script_job:
  "job_invariant (run ops (init w s0))
   \<and> length (live_jobs (run ops (init w s0))) \<le> 1
   \<and> (scriptJob s \<noteq> None \<longrightarrow> setScriptJobEnabled True s = s)
   \<and> (scriptJob s = None \<longrightarrow>
        scriptJob (setScriptJobEnabled True s) = Some (next_job s)
        \<and> live_jobs (setScriptJobEnabled True s) = live_jobs s @ [next_job s]
        \<and> calls s (setScriptJobEnabled True s) = [ScriptJob_new (next_job s)])
   \<and> scriptJob (setScriptJobEnabled False s) = None
   \<and> calls s (setScriptJobEnabled False s)
       = (case scriptJob s of None \<Rightarrow> [] | Some j \<Rightarrow> [ScriptJob_kill j])
   \<and> live_jobs (setScriptJobEnabled False s)
       = (case scriptJob s of None \<Rightarrow> live_jobs s | Some j \<Rightarrow> removeAll j (live_jobs s))
   \<and> scriptJob (close (run ops (init w s0))) = None
   \<and> live_jobs (close (run ops (init w s0))) = []"
proof -
  have inv: "job_invariant (run ops (init w s0))"
    by (rule job_invariant_run [OF job_invariant_init])
  then have len: "length (live_jobs (run ops (init w s0))) \<le> 1"
    by (simp add: job_invariant_def split: option.split)
  from job_invariant_close [OF inv]
  have closed: "live_jobs (close (run ops (init w s0))) = []"
    by (simp add: job_invariant_def scriptJob_close)
  have on: "scriptJob s \<noteq> None \<longrightarrow> setScriptJobEnabled True s = s"
    by (simp add: setScriptJobEnabled_def)
  have new: "scriptJob s = None \<longrightarrow>
        scriptJob (setScriptJobEnabled True s) = Some (next_job s)
        \<and> live_jobs (setScriptJobEnabled True s) = live_jobs s @ [next_job s]
        \<and> calls s (setScriptJobEnabled True s) = [ScriptJob_new (next_job s)]"
    by (simp add: setScriptJobEnabled_def ScriptJob_new_call_def scriptJob_def emit_def calls_def Let_def)
  have off: "scriptJob (setScriptJobEnabled False s) = None"
    by (simp add: setScriptJobEnabled_def scriptJob_def Let_def)
  have off_calls: "calls s (setScriptJobEnabled False s)
       = (case scriptJob s of None \<Rightarrow> [] | Some j \<Rightarrow> [ScriptJob_kill j])"
    by (rule calls_append) (rule trace_setScriptJobEnabled_False)
  have off_live: "live_jobs (setScriptJobEnabled False s)
       = (case scriptJob s of None \<Rightarrow> live_jobs s | Some j \<Rightarrow> removeAll j (live_jobs s))"
    by (simp add: setScriptJobEnabled_def ScriptJob_kill_call_def scriptJob_def emit_def Let_def
          split: option.split)
  from inv len on new off off_calls off_live closed scriptJob_close show ?thesis by blast
qed


theorem one_script_job_witness:
  "live_jobs (run [Call_setScriptJobEnabled True, Call_setScriptJobEnabled True] (init (Some 1) loaded_ui)) = [7]
   \<and> scriptJob new_widget \<noteq> None
   \<and> setScriptJobEnabled True new_widget = new_widget
   \<and> live_jobs (close (run [Call_setScriptJobEnabled True, Call_setScriptJobEnabled True]
         (init (Some 1) loaded_ui))) = []"
proof -
  note t = one_script_job [of "[Call_setScriptJobEnabled True, Call_setScriptJobEnabled True]"
      "Some 1" loaded_ui new_widget]
  have sj: "scriptJob new_widget = Some 7"
    by (simp add: new_widget_eq loaded_ui_def scriptJob_def)
  then have a: "scriptJob new_widget \<noteq> None" by simp
  with t have b: "setScriptJobEnabled True new_widget = new_widget" by blast
  have r: "run [Call_setScriptJobEnabled True, Call_setScriptJobEnabled True] (init (Some 1) loaded_ui)
      = new_widget"
    by (simp only: run.simps step.simps new_widget_def [symmetric] b)
  from t have "job_invariant (run [Call_setScriptJobEnabled True, Call_setScriptJobEnabled True]
      (init (Some 1) loaded_ui))" by blast
  then have c: "live_jobs (run [Call_setScriptJobEnabled True, Call_setScriptJobEnabled True]
      (init (Some 1) loaded_ui)) = [7]"
    unfolding job_invariant_def r by (simp add: sj)
  from t have d: "live_jobs (close (run [Call_setScriptJobEnabled True, Call_setScriptJobEnabled True]
         (init (Some 1) loaded_ui))) = []" by blast
  from a b c d show ?thesis by blast
qed

subsection \<open>The icon path\<close>

lemma iconPath_setIconPath: "iconPath (setIconPath p s) = p"
  by (simp add: setIconPath_def setIcon_def updateThumbnailSize_def emit_def iconPath_def Let_def)

lemma iconPath_thumbnailCapture:
  "iconPath (thumbnailCapture e s) = (case captured e of None \<Rightarrow> iconPath s | Some p \<Rightarrow> p)"
  by (simp add: thumbnailCapture_def thumbnailCaptured_def iconPath_setIconPath iconPath_emit
        Let_def split: option.split)

lemma iconPath_save: "iconPath (snd (save e objects path icon meta s)) = iconPath s"
  by (simp add: save_def Let_def iconPath_close iconPath_emit split: option.split)

lemma iconPath_accept:
  "iconPath (snd (accept e s)) =
     (case captured e of
        None \<Rightarrow> iconPath s
      | Some p \<Rightarrow>
          if folderPath s \<noteq> [] \<and> name s \<noteq> [] \<and> ls_selection s \<noteq> []
             \<and> \<not> os_path_exists s (iconPath s) \<and> answer e = Yes
          then p else iconPath s)"
proof (cases "folderPath s = [] \<or> name s = [] \<or> ls_selection s = []")
  case True
  from accept_invalid [OF True, of e] obtain msg where
    "accept e s = (Inl (PyException msg),
             emit (MessageBox_critical (libraryWindow s) ''Error while saving'' msg) s)" ..
  then have "iconPath (snd (accept e s)) = iconPath s" by (simp add: iconPath_emit)
  then show ?thesis using True by (auto split: option.split)
next
  case False
  then have valid: "folderPath s \<noteq> []" "name s \<noteq> []" "ls_selection s \<noteq> []" by simp_all
  show ?thesis
    using valid by (simp add: iconPath_accept_valid [OF valid] split: option.split)
qed

text \<open>
  C8. After \<open>setIconPath(p)\<close>, and after the capture callback on \<open>p\<close>, \<open>iconPath()\<close>
  returns \<open>p\<close>; after construction it returns the empty string. No other step changes
  it: a step leaves the icon path as it was unless it is \<open>setIconPath\<close> or it runs the
  thumbnail capture and the capture calls back with a path (\<open>thumbnailCapture\<close> itself,
  the thumbnail question answered Yes, or an \<open>accept\<close> that asks that question).
\<close>

theorem iconPath_set_once:
  "iconPath (setIconPath p s) = p
   \<and> iconPath (thumbnailCaptured p s) = p
   \<and> iconPath (init w s0) = []
   \<and> iconPath (step x s) =
       (case x of
          Call_setIconPath q \<Rightarrow> q
        | Call_thumbnailCapture e \<Rightarrow> (case captured e of None \<Rightarrow> iconPath s | Some q \<Rightarrow> q)
        | Call_showThumbnailCaptureDialog e \<Rightarrow>
            (case captured e of None \<Rightarrow> iconPath s
             | Some q \<Rightarrow> if answer e = Yes then q else iconPath s)
        | Call_accept e \<Rightarrow>
            (case captured e of None \<Rightarrow> iconPath s
             | Some q \<Rightarrow>
                 if folderPath s \<noteq> [] \<and> name s \<noteq> [] \<and> ls_selection s \<noteq> []
                    \<and> \<not> os_path_exists s (iconPath s) \<and> answer e = Yes
                 then q else iconPath s)
        | _ \<Rightarrow> iconPath s)"
proof -
  have a: "iconPath (init w s0) = []"
    by (simp add: init_def setScriptJobEnabled_def ScriptJob_new_call_def updateThumbnailSize_def
          emit_def scriptJob_def iconPath_def Let_def)
  have b: "iconPath (step x s) =
       (case x of
          Call_setIconPath q \<Rightarrow> q
        | Call_thumbnailCapture e \<Rightarrow> (case captured e of None \<Rightarrow> iconPath s | Some q \<Rightarrow> q)
        | Call_showThumbnailCaptureDialog e \<Rightarrow>
            (case captured e of None \<Rightarrow> iconPath s
             | Some q \<Rightarrow> if answer e = Yes then q else iconPath s)
        | Call_accept e \<Rightarrow>
            (case captured e of None \<Rightarrow> iconPath s
             | Some q \<Rightarrow>
                 if folderPath s \<noteq> [] \<and> name s \<noteq> [] \<and> ls_selection s \<noteq> []
                    \<and> \<not> os_path_exists s (iconPath s) \<and> answer e = Yes
                 then q else iconPath s)
        | _ \<Rightarrow> iconPath s)"
  proof (cases x)
    case (Call_accept e)
    then show ?thesis by (simp add: iconPath_accept)
  next
    case (Call_setScriptJobEnabled b)
    then show ?thesis
      by (simp add: setScriptJobEnabled_def ScriptJob_new_call_def ScriptJob_kill_call_def emit_def
            iconPath_def scriptJob_def Let_def split: option.split)
  qed (simp_all add: iconPath_setIconPath iconPath_thumbnailCapture
        iconPath_showThumbnailCaptureDialog iconPath_save iconPath_close,
       simp_all add: iconPath_def setLibraryWindow_def setFolderPath_def browseFolder_def
        updateThumbnailSize_def resizeEvent_def setIcon_def emit_def Let_def)
  from a b show ?thesis
    by (simp add: iconPath_setIconPath thumbnailCaptured_def)
qed

theorem iconPath_set_once_witness:
  "iconPath (step (Call_accept user_captures) filled_widget) = ''/tmp/thumbnail.jpg''
   \<and> iconPath (step (Call_accept user_ignores) filled_widget) = []
   \<and> iconPath (step Call_close pictured_widget) = ''/tmp/thumbnail.jpg''"
  using iconPath_set_once [of "''x''" filled_widget None loaded_ui "Call_accept user_captures"]
    iconPath_set_once [of "''x''" filled_widget None loaded_ui "Call_accept user_ignores"]
    iconPath_set_once [of "''x''" pictured_widget None loaded_ui Call_close]
  by (simp add: filled_widget_reads pictured_widget_reads user_captures_def user_ignores_def)

subsection \<open>White space\<close>

lemma strip_spec:
  "\<exists>a b. t = a @ strip t @ b \<and> list_all isspace a \<and> list_all isspace b
         \<and> (strip t = [] \<or> (\<not> isspace (hd (strip t)) \<and> \<not> isspace (last (strip t))))"
proof -
  define a where "a = takeWhile isspace t"
  define d where "d = dropWhile isspace t"
  define b where "b = rev (takeWhile isspace (rev d))"
  have t: "t = a @ d" by (simp add: a_def d_def)
  have s: "strip t = rev (dropWhile isspace (rev d))" by (simp add: strip_def d_def)
  have "rev (rev d) = rev (takeWhile isspace (rev d) @ dropWhile isspace (rev d))"
    by (simp only: takeWhile_dropWhile_id)
  then have "d = rev (dropWhile isspace (rev d)) @ rev (takeWhile isspace (rev d))"
    by (simp only: rev_rev_ident rev_append)
  then have d: "d = strip t @ b" by (simp only: s b_def)
  have la: "list_all isspace a"
    by (auto simp: a_def list_all_iff dest: set_takeWhileD)
  have lb: "list_all isspace b"
    by (auto simp: b_def list_all_iff dest: set_takeWhileD)
  have ends: "\<not> isspace (hd (strip t)) \<and> \<not> isspace (last (strip t))" if ne: "strip t \<noteq> []"
  proof -
    from ne have dne: "d \<noteq> []" using d by auto
    then have "\<not> isspace (hd d)" unfolding d_def by (rule hd_dropWhile)
    moreover have "hd d = hd (strip t)" using d ne by (metis hd_append2)
    moreover have "dropWhile isspace (rev d) \<noteq> []" using ne s by auto
    then have "\<not> isspace (hd (dropWhile isspace (rev d)))" by (rule hd_dropWhile)
    then have "\<not> isspace (last (strip t))" using ne by (simp add: s last_rev)
    ultimately show ?thesis by simp
  qed
  from t d la lb ends show ?thesis by (metis append_assoc)
qed

lemma isspace_iff:
  "isspace c \<longleftrightarrow> c \<in> set [CHR 0x09, CHR 0x0A, CHR 0x0B, CHR 0x0C, CHR 0x0D, CHR 0x1C, CHR 0x1D,
                              CHR 0x1E, CHR 0x1F, CHR 0x20, CHR 0x85, CHR 0xA0]"
proof -
  have inj: "inj (of_char :: char \<Rightarrow> nat)"
    by (simp add: inj_on_def)
  have "{9, 10, 11, 12, 13, 28, 29, 30, 31, 32, 133, 160 :: nat}
      = of_char ` set [CHR 0x09, CHR 0x0A, CHR 0x0B, CHR 0x0C, CHR 0x0D, CHR 0x1C, CHR 0x1D,
                       CHR 0x1E, CHR 0x1F, CHR 0x20, CHR 0x85, CHR 0xA0]"
    by simp
  then show ?thesis
    unfolding isspace_def by (simp only: inj_image_mem_iff [OF inj])
qed

lemma strip_empty_iff: "strip t = [] \<longleftrightarrow> (\<forall>c\<in>set t. isspace c)"
proof
  assume "strip t = []"
  then have all: "\<forall>c\<in>set (dropWhile isspace t). isspace c"
    by (simp add: strip_def)
  have "dropWhile isspace t = []"
  proof (rule ccontr)
    assume ne: "dropWhile isspace t \<noteq> []"
    then have "\<not> isspace (hd (dropWhile isspace t))" by (rule hd_dropWhile)
    moreover have "hd (dropWhile isspace t) \<in> set (dropWhile isspace t)"
      using ne by (rule hd_in_set)
    ultimately show False using all by blast
  qed
  then show "\<forall>c\<in>set t. isspace c" by simp
next
  assume "\<forall>c\<in>set t. isspace c"
  then show "strip t = []" by (auto simp: strip_def dest: set_dropWhileD)
qed

lemma blank_widgets:
  "blank_name_widget = filled_widget\<lparr>ui_name_text := [CHR 0xA0, CHR 0x09, CHR 0x20, CHR 0x85]\<rparr>"
  "blank_folder_widget = filled_widget\<lparr>ui_folderEdit_text := ''  ''\<rparr>"
  by (simp_all add: blank_name_widget_def blank_folder_widget_def setFolderPath_def)

lemma blank_name_widget_reads:
  "ui_name_text blank_name_widget = [CHR 0xA0, CHR 0x09, CHR 0x20, CHR 0x85]"
  "folderPath blank_name_widget = ''/library/poses''"
  "libraryWindow blank_name_widget = Some 1"
  by (simp_all add: blank_widgets filled_widget_eq new_widget_eq loaded_ui_def method_defs)

lemma blank_folder_widget_reads:
  "ui_folderEdit_text blank_folder_widget = ''  ''"
  "name blank_folder_widget = ''walk''"
  "description blank_folder_widget = ''first pass''"
  "ls_selection blank_folder_widget = [''pCube1'', ''pSphere1'']"
  "iconPath blank_folder_widget = []"
  by (simp_all add: blank_widgets filled_widget_eq new_widget_eq loaded_ui_def method_defs)

text \<open>
  C9. \<open>name()\<close> and \<open>description()\<close> return the field's text stripped, \<open>folderPath()\<close>
  the field's text as it is. Stripping a text removes a first and a last part made of
  white space and leaves a middle that is empty or begins and ends with a character that
  is no white space; white space is one of the twelve code points U+0009 to U+000D,
  U+001C to U+0020, U+0085 and U+00A0. So a name made of white space only is empty for \<open>accept\<close>,
  which does not save and, the folder path given, raises the name message; a folder
  path made of white space only is not empty:
  it passes the folder check and, when the save is reached, is the prefix of the path
  handed to \<open>item.save\<close>, unchanged.
\<close>

theorem whitespace_stripped_from_name_not_folder:
  "name s = strip (ui_name_text s)
   \<and> description s = strip (ui_comment_text s)
   \<and> folderPath s = ui_folderEdit_text s
   \<and> (\<exists>a b. ui_name_text s = a @ name s @ b \<and> list_all isspace a \<and> list_all isspace b
          \<and> (name s = [] \<or> (\<not> isspace (hd (name s)) \<and> \<not> isspace (last (name s)))))
   \<and> (\<exists>a b. ui_comment_text s = a @ description s @ b \<and> list_all isspace a \<and> list_all isspace b
          \<and> (description s = []
              \<or> (\<not> isspace (hd (description s)) \<and> \<not> isspace (last (description s)))))
   \<and> (isspace c \<longleftrightarrow>
         c \<in> set [CHR 0x09, CHR 0x0A, CHR 0x0B, CHR 0x0C, CHR 0x0D, CHR 0x1C, CHR 0x1D,
                  CHR 0x1E, CHR 0x1F, CHR 0x20, CHR 0x85, CHR 0xA0])
   \<and> ((\<forall>c\<in>set (ui_name_text s). isspace c) \<longrightarrow>
        name s = []
        \<and> filter is_Item_save (calls s (snd (accept e s))) = []
        \<and> (folderPath s \<noteq> [] \<longrightarrow>
             accept e s =
               (Inl (PyException ''No name specified. Please set a name before saving.''),
                emit (MessageBox_critical (libraryWindow s) ''Error while saving''
                        ''No name specified. Please set a name before saving.'') s)))
   \<and> (ui_folderEdit_text s \<noteq> [] \<and> (\<forall>c\<in>set (ui_folderEdit_text s). isspace c)
        \<and> name s \<noteq> [] \<and> ls_selection s \<noteq> []
        \<and> (os_path_exists s (iconPath s) \<or> answer e \<noteq> Cancel) \<longrightarrow>
        filter is_Item_save (calls s (snd (accept e s)))
          = [Item_save (ls_selection s) (ui_folderEdit_text s @ ''/'' @ name s)
               (iconPath (snd (accept e s))) [''description'' \<mapsto> description s]])"
proof -
  have a: "name s = []
        \<and> filter is_Item_save (calls s (snd (accept e s))) = []
        \<and> (folderPath s \<noteq> [] \<longrightarrow>
             accept e s =
               (Inl (PyException ''No name specified. Please set a name before saving.''),
                emit (MessageBox_critical (libraryWindow s) ''Error while saving''
                        ''No name specified. Please set a name before saving.'') s))"
    if "\<forall>c\<in>set (ui_name_text s). isspace c"
  proof -
    from that have n: "name s = []" by (simp add: name_def strip_empty_iff)
    then have "folderPath s = [] \<or> name s = [] \<or> ls_selection s = []" by simp
    from accept_invalid [OF this, of e]
    have "filter is_Item_save (calls s (snd (accept e s))) = []"
      by (auto simp: calls_def emit_def)
    with n show ?thesis by (simp add: accept_def accept_try_no_name)
  qed
  have b: "filter is_Item_save (calls s (snd (accept e s)))
          = [Item_save (ls_selection s) (ui_folderEdit_text s @ ''/'' @ name s)
               (iconPath (snd (accept e s))) [''description'' \<mapsto> description s]]"
    if "ui_folderEdit_text s \<noteq> []" "name s \<noteq> []" "ls_selection s \<noteq> []"
       "os_path_exists s (iconPath s) \<or> answer e \<noteq> Cancel"
  proof -
    have valid: "folderPath s \<noteq> []" "name s \<noteq> []" "ls_selection s \<noteq> []"
      using that by (simp_all add: folderPath_def)
    have "filter is_Item_save (calls s (snd (accept e s)))
          = [Item_save (ls_selection s) (folderPath s @ ''/'' @ name s)
               (iconPath (snd (accept e s))) [''description'' \<mapsto> description s]]"
      using that(4) unfolding iconPath_accept_valid [OF valid]
      by (auto simp add: calls_accept_valid [OF valid] Let_def calls_self
            calls_showThumbnailCaptureDialog iconPath_showThumbnailCaptureDialog
            split: option.split)
    then show ?thesis by (simp add: folderPath_def)
  qed
  have c: "\<exists>a b. ui_name_text s = a @ name s @ b \<and> list_all isspace a \<and> list_all isspace b
          \<and> (name s = [] \<or> (\<not> isspace (hd (name s)) \<and> \<not> isspace (last (name s))))"
    unfolding name_def by (rule strip_spec)
  have d: "\<exists>a b. ui_comment_text s = a @ description s @ b \<and> list_all isspace a
          \<and> list_all isspace b
          \<and> (description s = []
              \<or> (\<not> isspace (hd (description s)) \<and> \<not> isspace (last (description s))))"
    unfolding description_def by (rule strip_spec)
  have defs: "name s = strip (ui_name_text s)" "description s = strip (ui_comment_text s)"
      "folderPath s = ui_folderEdit_text s"
    by (simp_all add: name_def description_def folderPath_def)
  from a b c d defs isspace_iff [of c] show ?thesis by blast
qed

theorem whitespace_stripped_from_name_not_folder_witness:
  "ui_name_text blank_name_widget = [CHR 0xA0, CHR 0x09, CHR 0x20, CHR 0x85]
   \<and> name blank_name_widget = []
   \<and> filter is_Item_save (calls blank_name_widget (snd (accept user_ignores blank_name_widget))) = []
   \<and> ui_name_text filled_widget = CHR 0xA0 # '' walk '' @ [CHR 0x85]
   \<and> name filled_widget = ''walk''
   \<and> fst (accept user_ignores blank_name_widget)
       = Inl (PyException ''No name specified. Please set a name before saving.'')
   \<and> ui_folderEdit_text blank_folder_widget = ''  ''
   \<and> filter is_Item_save (calls blank_folder_widget (snd (accept user_ignores blank_folder_widget)))
       = [Item_save [''pCube1'', ''pSphere1''] ''  /walk'' [] [''description'' \<mapsto> ''first pass'']]"
proof -
  note n = whitespace_stripped_from_name_not_folder
      [where s = blank_name_widget and e = user_ignores and c = "CHR 0xA0"]
  note f = whitespace_stripped_from_name_not_folder
      [where s = blank_folder_widget and e = user_ignores and c = "CHR 0xA0"]
  have sp: "\<forall>c\<in>set (ui_name_text blank_name_widget). isspace c"
    by (simp add: blank_name_widget_reads isspace_def)
  have fp: "folderPath blank_name_widget \<noteq> []"
    by (simp add: blank_name_widget_reads)
  from n sp have refused: "name blank_name_widget = []
        \<and> filter is_Item_save (calls blank_name_widget (snd (accept user_ignores blank_name_widget))) = []
        \<and> (folderPath blank_name_widget \<noteq> [] \<longrightarrow>
             accept user_ignores blank_name_widget =
               (Inl (PyException ''No name specified. Please set a name before saving.''),
                emit (MessageBox_critical (libraryWindow blank_name_widget) ''Error while saving''
                        ''No name specified. Please set a name before saving.'') blank_name_widget))"
    by blast
  with fp have "accept user_ignores blank_name_widget =
               (Inl (PyException ''No name specified. Please set a name before saving.''),
                emit (MessageBox_critical (libraryWindow blank_name_widget) ''Error while saving''
                        ''No name specified. Please set a name before saving.'') blank_name_widget)"
    by blast
  then have a: "fst (accept user_ignores blank_name_widget)
       = Inl (PyException ''No name specified. Please set a name before saving.'')"
    by simp
  have walk: "ui_name_text filled_widget = CHR 0xA0 # '' walk '' @ [CHR 0x85]"
    by (simp add: filled_widget_eq)
  from n have "name filled_widget = strip (ui_name_text filled_widget)"
    by (simp add: name_def)
  then have walk': "name filled_widget = ''walk''"
    by (simp add: filled_widget_reads)
  have pre: "ui_folderEdit_text blank_folder_widget \<noteq> []"
      "\<forall>c\<in>set (ui_folderEdit_text blank_folder_widget). isspace c"
      "name blank_folder_widget \<noteq> []" "ls_selection blank_folder_widget \<noteq> []"
      "os_path_exists blank_folder_widget (iconPath blank_folder_widget) \<or> answer user_ignores \<noteq> Cancel"
    by (simp_all add: blank_folder_widget_reads isspace_def user_ignores_def)
  have ic: "iconPath (snd (accept user_ignores blank_folder_widget)) = []"
    using iconPath_accept [of user_ignores blank_folder_widget]
    by (simp add: user_ignores_def blank_folder_widget_reads)
  from f pre have "filter is_Item_save (calls blank_folder_widget (snd (accept user_ignores blank_folder_widget)))
          = [Item_save (ls_selection blank_folder_widget)
               (ui_folderEdit_text blank_folder_widget @ ''/'' @ name blank_folder_widget)
               (iconPath (snd (accept user_ignores blank_folder_widget)))
               [''description'' \<mapsto> description blank_folder_widget]]"
    by blast
  then have b: "filter is_Item_save (calls blank_folder_widget (snd (accept user_ignores blank_folder_widget)))
       = [Item_save [''pCube1'', ''pSphere1''] ''  /walk'' [] [''description'' \<mapsto> ''first pass'']]"
    by (simp add: blank_folder_widget_reads ic)
  from refused have r: "name blank_name_widget = []"
      "filter is_Item_save (calls blank_name_widget (snd (accept user_ignores blank_name_widget))) = []"
    by blast+
  note u = blank_name_widget_reads(1) blank_folder_widget_reads(1)
  from a b r walk walk' u show ?thesis by blast
qed

end
